theory Spec2Isabelle
  imports Complex_Main
begin

section \<open>The Jax backend of PhiFlow: a shallow embedding\<close>

text \<open>
  The source is \<^verbatim>\<open>src/phi/jax/_jax_backend.py\<close>, class \<^verbatim>\<open>JaxBackend\<close>.
  Python exceptions are values of the type \<open>error\<close>; a method that may raise returns
  \<open>error + 'a\<close> with \<open>Inl\<close> for the exception. Attributes that a method assigns
  (\<^verbatim>\<open>solve_params.result\<close>, \<^verbatim>\<open>self.rnd_key\<close>) are returned as part of the result.
  Numbers held by tensors are modelled by \<open>real\<close>: the rounding of floating point
  arithmetic is outside the model. A quotient is a value of the type \<open>fp\<close>, which has
  the infinities and NaN that a floating point division by zero returns.
\<close>

datatype error =
    AssertionError
  | NotImplementedError
  | IndexError
  | ValueError
  | TypeError
  | RuntimeError
  | IncompatibleDimensions

subsection \<open>Helpers shared by the batched operations\<close>

text \<open>
  Modelled from the spec: \<^verbatim>\<open>combined_dim\<close> is imported from
  \<^verbatim>\<open>phi.math.backend._backend_helper\<close>, which is not among the sources. The
  specification calls it the combined-batch-size rule: the result is the maximum of the
  participating batch sizes, every size-1 side is broadcast, and any other mismatch is an
  error.
\<close>

definition combined_dim :: "nat \<Rightarrow> nat \<Rightarrow> error + nat" where
  "combined_dim dim1 dim2 =
     (if dim1 = dim2 \<or> dim1 = 1 \<or> dim2 = 1 then Inr (max dim1 dim2)
      else Inl IncompatibleDimensions)"

subsection \<open>Tensors\<close>

text \<open>
  A tensor is its shape (the extents, outermost first) and its cells, read by the list of
  their positions. Only cells whose position lies inside the shape carry meaning.
\<close>

record 'a tensor =
  shape :: "nat list"
  data :: "nat list \<Rightarrow> 'a"

text \<open>Indexing a Python tuple, \<^verbatim>\<open>t.shape[i]\<close>: a negative index counts from the end, and
  an index that is still out of range raises.\<close>

definition tuple_getitem :: "'a list \<Rightarrow> int \<Rightarrow> error + 'a" where
  "tuple_getitem t i =
     (if - int (length t) \<le> i \<and> i < int (length t)
      then Inr (t ! nat (if i < 0 then i + int (length t) else i))
      else Inl IndexError)"

definition staticshape :: "'a tensor \<Rightarrow> nat list" where
  "staticshape t = shape t"

text \<open>The part of \<open>t\<close> at position \<open>k\<close> of its leading axis.\<close>

definition row :: "'a tensor \<Rightarrow> nat \<Rightarrow> 'a tensor" where
  "row t k = \<lparr>shape = tl (shape t), data = (\<lambda>is. data t (k # is))\<rparr>"

text \<open>
  \<^verbatim>\<open>t[i]\<close> and \<^verbatim>\<open>t[i, ...]\<close> on an array of the library, \<open>i\<close> a Python integer: an array
  without axes and an axis of extent 0 raise; otherwise a negative index counts from the
  end and the library then clamps the index into the axis.
\<close>

definition getitem :: "'a tensor \<Rightarrow> int \<Rightarrow> error + 'a tensor" where
  "getitem t i =
     (case shape t of
        [] \<Rightarrow> Inl IndexError
      | n # _ \<Rightarrow>
          if n = 0 then Inl IndexError
          else
            let j = (if i < 0 then i + int n else i)
            in Inr (row t (nat (max 0 (min j (int n - 1))))))"

text \<open>\<^verbatim>\<open>jnp.stack(values, 0)\<close>: a new leading axis over parts of one shape; an empty
  list and parts of different shapes raise.\<close>

definition stack :: "'a tensor list \<Rightarrow> error + 'a tensor" where
  "stack values =
     (case values of
        [] \<Rightarrow> Inl ValueError
      | v # vs \<Rightarrow>
          if list_all (\<lambda>u. shape u = shape v) vs
          then Inr \<lparr>shape = length values # shape v,
                    data = (\<lambda>is. data (values ! hd is) (tl is))\<rparr>
          else Inl ValueError)"

subsection \<open>\<^verbatim>\<open>conjugate_gradient\<close>\<close>

record SolveResult =
  success :: bool
  iterations :: int

record LinearSolve =
  relative_tolerance :: real
  absolute_tolerance :: real
  max_iterations :: int
  result :: "SolveResult option"

text \<open>
  The operator \<open>A\<close>: \<open>Batched\<close> is a tuple, a list or a tensor of three dimensions (the
  cases in which the source reads \<^verbatim>\<open>staticshape(A)[0]\<close>), \<open>Single\<close> is anything else
  (one matrix, one linear operator).
\<close>

datatype 'm operator = Single 'm | Batched "'m list"

text \<open>
  The library routine \<^verbatim>\<open>jax.scipy.sparse.linalg.cg\<close> is a parameter \<open>cg\<close> of the model:
  \<open>cg A y x0 tol atol maxiter\<close> returns the last iterate and the routine's information
  value, or raises. The loop \<^verbatim>\<open>for batch in range(batch_size)\<close> is the recursion of
  \<open>cg_batches\<close> over \<open>[0..<batch_size]\<close>; an exception ends it.
\<close>

type_synonym ('m, 'i) cg_routine =
  "'m operator \<Rightarrow> real tensor \<Rightarrow> real tensor \<Rightarrow> real \<Rightarrow> real \<Rightarrow> int \<Rightarrow>
     error + (real tensor \<times> 'i)"

fun cg_batches ::
  "('m, 'i) cg_routine \<Rightarrow> 'm operator \<Rightarrow> real tensor \<Rightarrow> real tensor \<Rightarrow> nat \<Rightarrow> nat \<Rightarrow>
     LinearSolve \<Rightarrow> nat list \<Rightarrow> error + real tensor list" where
  "cg_batches cg A y x0 bs_y bs_x0 solve_params [] = Inr []"
| "cg_batches cg A y x0 bs_y bs_x0 solve_params (batch # rest) =
     (case getitem y (min (int batch) (int bs_y - 1)) of
        Inl e \<Rightarrow> Inl e
      | Inr y' \<Rightarrow>
     (case getitem x0 (min (int batch) (int bs_x0 - 1)) of
        Inl e \<Rightarrow> Inl e
      | Inr x0' \<Rightarrow>
     (case cg A y' x0' (relative_tolerance solve_params) (absolute_tolerance solve_params)
             (max_iterations solve_params) of
        Inl e \<Rightarrow> Inl e
      | Inr (x, ret_val) \<Rightarrow>
     (case cg_batches cg A y x0 bs_y bs_x0 solve_params rest of
        Inl e \<Rightarrow> Inl e
      | Inr results \<Rightarrow> Inr (x # results)))))"

definition conjugate_gradient ::
  "('m, 'i) cg_routine \<Rightarrow> 'm operator \<Rightarrow> real tensor \<Rightarrow> real tensor \<Rightarrow> LinearSolve \<Rightarrow>
     error + (real tensor \<times> LinearSolve)" where
  "conjugate_gradient cg A y x0 solve_params =
     (case tuple_getitem (staticshape y) 0 of
        Inl e \<Rightarrow> Inl e
      | Inr bs_y \<Rightarrow>
     (case tuple_getitem (staticshape x0) 0 of
        Inl e \<Rightarrow> Inl e
      | Inr bs_x0 \<Rightarrow>
     (case combined_dim bs_y bs_x0 of
        Inl e \<Rightarrow> Inl e
      | Inr batch_size0 \<Rightarrow>
     (case (case A of Batched ops \<Rightarrow> combined_dim batch_size0 (length ops)
                    | Single _ \<Rightarrow> Inr batch_size0) of
        Inl e \<Rightarrow> Inl e
      | Inr batch_size \<Rightarrow>
     (case cg_batches cg A y x0 bs_y bs_x0 solve_params [0..<batch_size] of
        Inl e \<Rightarrow> Inl e
      | Inr results \<Rightarrow>
     (case stack results of
        Inl e \<Rightarrow> Inl e
      | Inr stacked \<Rightarrow>
          Inr (stacked,
               solve_params\<lparr>result := Some \<lparr>success = True, iterations = - 1\<rparr>\<rparr>)))))))"

text \<open>
  For the statements below: the batch size an operator brings into the combined batch
  size (a single operator behaves as a side of size 1), and a routine that returns the
  iterates of \<open>cg\<close> but reports \<open>g info\<close> in place of \<open>info\<close>.
\<close>

definition batch_of :: "'m operator \<Rightarrow> nat" where
  "batch_of A = (case A of Batched ops \<Rightarrow> length ops | Single _ \<Rightarrow> 1)"

definition relabel :: "('i \<Rightarrow> 'j) \<Rightarrow> ('m, 'i) cg_routine \<Rightarrow> ('m, 'j) cg_routine" where
  "relabel g cg A y x0 tol atol maxiter =
     (case cg A y x0 tol atol maxiter of
        Inl e \<Rightarrow> Inl e
      | Inr (x, info) \<Rightarrow> Inr (x, g info))"

text \<open>
  A textbook conjugate-gradient routine on lists of reals, used to run the model on
  concrete systems. It stops when the squared residual is at most
  \<open>max (tol\<^sup>2 * \<parallel>y\<parallel>\<^sup>2) (atol\<^sup>2)\<close> or after \<open>maxiter\<close> steps, and returns the last iterate.
  Like the library's routine it solves one system with one square matrix, and refuses a
  batch of operators.
\<close>

definition dot :: "real list \<Rightarrow> real list \<Rightarrow> real" where
  "dot u v = sum_list (map2 (*) u v)"

definition matvec :: "real list list \<Rightarrow> real list \<Rightarrow> real list" where
  "matvec M v = map (\<lambda>row. dot row v) M"

definition axpy :: "real \<Rightarrow> real list \<Rightarrow> real list \<Rightarrow> real list" where
  "axpy a u v = map2 (\<lambda>ui vi. a * ui + vi) u v"

definition residual :: "real list list \<Rightarrow> real list \<Rightarrow> real list \<Rightarrow> real list" where
  "residual M y x = axpy (- 1) (matvec M x) y"

definition reached_tolerance ::
  "real list list \<Rightarrow> real list \<Rightarrow> real list \<Rightarrow> real \<Rightarrow> real \<Rightarrow> bool" where
  "reached_tolerance M y x tol atol =
     (dot (residual M y x) (residual M y x) \<le> max (tol\<^sup>2 * dot y y) (atol\<^sup>2))"

fun cg_steps ::
  "nat \<Rightarrow> real list list \<Rightarrow> real \<Rightarrow> real list \<Rightarrow> real list \<Rightarrow> real list \<Rightarrow> real list" where
  "cg_steps 0 M atol2 x r p = x"
| "cg_steps (Suc k) M atol2 x r p =
     (let rs = dot r r in
      if rs \<le> atol2 then x
      else
        let Ap = matvec M p;
            alpha = rs / dot p Ap;
            x' = axpy alpha p x;
            r' = axpy (- alpha) Ap r;
            beta = dot r' r' / rs;
            p' = axpy beta p r'
        in cg_steps k M atol2 x' r' p')"

definition vector :: "'a tensor \<Rightarrow> 'a list" where
  "vector t = map (\<lambda>i. data t [i]) [0..<hd (shape t)]"

definition of_vector :: "'a list \<Rightarrow> 'a tensor" where
  "of_vector xs = \<lparr>shape = [length xs], data = (\<lambda>is. xs ! hd is)\<rparr>"

text \<open>Tensors of two and three axes written as nested lists, for concrete inputs.\<close>

definition of_matrix :: "'a list list \<Rightarrow> 'a tensor" where
  "of_matrix xs =
     \<lparr>shape = [length xs, length (hd xs)], data = (\<lambda>is. xs ! (is ! 0) ! (is ! 1))\<rparr>"

definition of_cube :: "'a list list list \<Rightarrow> 'a tensor" where
  "of_cube xs =
     \<lparr>shape = [length xs, length (hd xs), length (hd (hd xs))],
      data = (\<lambda>is. xs ! (is ! 0) ! (is ! 1) ! (is ! 2))\<rparr>"

definition textbook_cg :: "(real list list, unit) cg_routine" where
  "textbook_cg A y x0 tol atol maxiter =
     (case A of
        Batched _ \<Rightarrow> Inl ValueError
      | Single M \<Rightarrow>
          Inr (of_vector
                 (cg_steps (nat maxiter) M (max (tol\<^sup>2 * dot (vector y) (vector y)) (atol\<^sup>2))
                    (vector x0) (residual M (vector y) (vector x0))
                    (residual M (vector y) (vector x0))), ()))"

subsection \<open>\<^verbatim>\<open>gather\<close> and \<^verbatim>\<open>scatter\<close>\<close>

text \<open>
  \<^verbatim>\<open>values[indices]\<close> with an integer array: every cell of \<open>indices\<close> selects a part of
  \<open>values\<close> along its leading axis, read as \<open>getitem\<close> reads it.
\<close>

definition gather :: "'a tensor \<Rightarrow> int tensor \<Rightarrow> error + 'a tensor" where
  "gather values indices =
     (case shape values of
        [] \<Rightarrow> Inl IndexError
      | n # s \<Rightarrow>
          if n = 0 then Inl IndexError
          else
            Inr \<lparr>shape = shape indices @ s,
                 data = (\<lambda>is.
                   let r = length (shape indices);
                       i = data indices (take r is);
                       j = (if i < 0 then i + int n else i)
                   in data values (nat (max 0 (min j (int n - 1))) # drop r is))\<rparr>)"

definition zeros :: "nat list \<Rightarrow> real tensor" where
  "zeros shp = \<lparr>shape = shp, data = (\<lambda>is. 0)\<rparr>"

definition ones :: "nat list \<Rightarrow> real tensor" where
  "ones shp = \<lparr>shape = shp, data = (\<lambda>is. 1)\<rparr>"

definition maximum :: "real \<Rightarrow> real tensor \<Rightarrow> real tensor" where
  "maximum a b = \<lparr>shape = shape b, data = (\<lambda>is. max a (data b is))\<rparr>"

text \<open>
  The result of a floating point division: a number, an infinity, or NaN. Dividing by
  zero gives NaN for \<open>0 / 0\<close> and an infinity with the sign of the numerator otherwise.
  \<open>divide\<close> is the cell by cell division \<^verbatim>\<open>a / b\<close> of two tensors of one shape.
\<close>

datatype fp = Fin real | PosInf | NegInf | NaN

definition fdiv :: "real \<Rightarrow> real \<Rightarrow> fp" where
  "fdiv a b =
     (if b = 0 then (if a = 0 then NaN else if 0 < a then PosInf else NegInf)
      else Fin (a / b))"

definition divide :: "real tensor \<Rightarrow> real tensor \<Rightarrow> fp tensor" where
  "divide a b = \<lparr>shape = shape a, data = (\<lambda>is. fdiv (data a is) (data b is))\<rparr>"

text \<open>
  \<^verbatim>\<open>jax.lax.scatter_add\<close> with the dimension numbers the source builds
  (\<^verbatim>\<open>update_window_dims=(1,)\<close>, \<^verbatim>\<open>inserted_window_dims=(0, 1)\<close>,
  \<^verbatim>\<open>scatter_dims_to_operand_dims=(0, 1)\<close>): the operand has three axes \<open>[X, Y, C]\<close>, the
  indices are \<open>N\<close> pairs, the updates are \<open>N\<close> windows of at most \<open>C\<close> numbers, and window
  \<open>n\<close> is added to the operand at the cell its pair names. An update whose pair lies outside
  \<open>[0, X) \<times> [0, Y)\<close> is skipped, as the library does for a scatter; operands, indices and
  updates of other shapes are refused.
\<close>

definition scatter_add_step ::
  "nat \<Rightarrow> nat \<Rightarrow> nat \<Rightarrow> int tensor \<Rightarrow> real tensor \<Rightarrow> nat \<Rightarrow> (nat list \<Rightarrow> real) \<Rightarrow>
     (nat list \<Rightarrow> real)" where
  "scatter_add_step X Y C' indices updates n acc =
     (let ix = data indices [n, 0]; iy = data indices [n, 1]
      in if 0 \<le> ix \<and> ix < int X \<and> 0 \<le> iy \<and> iy < int Y
         then (\<lambda>is. if length is = 3 \<and> is ! 0 = nat ix \<and> is ! 1 = nat iy \<and> is ! 2 < C'
                     then acc is + data updates [n, is ! 2] else acc is)
         else acc)"

definition scatter_add :: "real tensor \<Rightarrow> int tensor \<Rightarrow> real tensor \<Rightarrow> error + real tensor" where
  "scatter_add operand indices updates =
     (case (shape operand, shape indices, shape updates) of
        ([X, Y, C], [N, K], [N', C']) \<Rightarrow>
          if K = 2 \<and> N' = N \<and> C' \<le> C
          then Inr \<lparr>shape = shape operand,
                    data = fold (scatter_add_step X Y C' indices updates) [0..<N]
                             (data operand)\<rparr>
          else Inl TypeError
      | _ \<Rightarrow> Inl TypeError)"

text \<open>The loop \<^verbatim>\<open>for b in range(batch_size)\<close> of the \<^verbatim>\<open>'mean'\<close> branch, returning the
  lists \<^verbatim>\<open>sums\<close> and \<^verbatim>\<open>counts\<close> (here \<open>sums_list\<close>, \<open>counts_list\<close>).\<close>

fun scatter_mean_batches ::
  "real tensor \<Rightarrow> real tensor \<Rightarrow> int tensor \<Rightarrow> real tensor \<Rightarrow> nat list \<Rightarrow>
     error + (real tensor list \<times> real tensor list)" where
  "scatter_mean_batches zeros' ones' indices values [] = Inr ([], [])"
| "scatter_mean_batches zeros' ones' indices values (b # rest) =
     (case getitem indices (int b) of
        Inl e \<Rightarrow> Inl e
      | Inr indices_b \<Rightarrow>
     (case getitem values (int b) of
        Inl e \<Rightarrow> Inl e
      | Inr values_b \<Rightarrow>
     (case scatter_add zeros' indices_b values_b of
        Inl e \<Rightarrow> Inl e
      | Inr sum_b \<Rightarrow>
     (case scatter_add zeros' indices_b ones' of
        Inl e \<Rightarrow> Inl e
      | Inr count_b \<Rightarrow>
     (case scatter_mean_batches zeros' ones' indices values rest of
        Inl e \<Rightarrow> Inl e
      | Inr (sums_list, counts_list) \<Rightarrow> Inr (sum_b # sums_list, count_b # counts_list))))))"

definition scatter ::
  "int tensor \<Rightarrow> real tensor \<Rightarrow> nat list \<Rightarrow> string \<Rightarrow> string \<Rightarrow> error + fp tensor" where
  "scatter indices values shp duplicates_handling outside_handling =
     (if duplicates_handling \<notin> set [''undefined'', ''add'', ''mean'', ''any'']
      then Inl AssertionError
      else if outside_handling \<notin> set [''discard'', ''clamp'', ''undefined'']
      then Inl AssertionError
      else
     (case tuple_getitem (shape indices) 0 of
        Inl e \<Rightarrow> Inl e
      | Inr bs_indices \<Rightarrow>
     (case tuple_getitem (shape values) 0 of
        Inl e \<Rightarrow> Inl e
      | Inr bs_values \<Rightarrow>
     (case combined_dim bs_indices bs_values of
        Inl e \<Rightarrow> Inl e
      | Inr batch_size \<Rightarrow>
          if duplicates_handling = ''add'' then Inl NotImplementedError
          else if duplicates_handling = ''mean'' then
           (case tuple_getitem (shape values) (- 1) of
              Inl e \<Rightarrow> Inl e
            | Inr channels \<Rightarrow>
           (let zeros' = zeros (shp @ [channels]);
                ones' = ones (tl (shape values))
            in case scatter_mean_batches zeros' ones' indices values [0..<batch_size] of
                 Inl e \<Rightarrow> Inl e
               | Inr (sums_list, counts_list) \<Rightarrow>
                (case stack sums_list of
                   Inl e \<Rightarrow> Inl e
                 | Inr sums' \<Rightarrow>
                (case stack counts_list of
                   Inl e \<Rightarrow> Inl e
                 | Inr counts' \<Rightarrow> Inr (divide sums' (maximum 1 counts'))))))
          else Inl NotImplementedError))))"

text \<open>
  What \<^verbatim>\<open>outside_handling='clamp'\<close> stands for, after the line that \<^verbatim>\<open>scatter\<close> keeps
  as a comment (\<^verbatim>\<open>indices = jnp.maximum(0, jnp.minimum(indices, shape - 1))\<close>) and the
  function \<^verbatim>\<open>clamp\<close> at the end of the module: coordinate \<open>i\<close> of every index is moved
  into \<open>[0, shape[i] - 1]\<close>.
\<close>

definition clamp_indices :: "int tensor \<Rightarrow> nat list \<Rightarrow> int tensor" where
  "clamp_indices indices shp =
     \<lparr>shape = shape indices,
      data = (\<lambda>is. max 0 (min (data indices is) (int (shp ! last is) - 1)))\<rparr>"





text \<open>The round trip: a gather, then a scatter of the gathered values at the same indices
  into the shape of the values.\<close>

definition gather_then_scatter ::
  "real tensor \<Rightarrow> int tensor \<Rightarrow> string \<Rightarrow> string \<Rightarrow> error + fp tensor" where
  "gather_then_scatter values indices duplicates_handling outside_handling =
     (case gather values indices of
        Inl e \<Rightarrow> Inl e
      | Inr gathered \<Rightarrow>
          scatter indices gathered (shape values) duplicates_handling outside_handling)"

subsection \<open>\<^verbatim>\<open>while_loop\<close>\<close>

text \<open>
  The loop may run forever, so its model returns an option: \<open>None\<close> is a call that does
  not return. \<open>while_loop_from\<close> is the loop entered with the counter \<open>i\<close>.
\<close>

partial_function (option) while_loop_from ::
  "('s \<Rightarrow> bool) \<Rightarrow> ('s \<Rightarrow> 's) \<Rightarrow> int option \<Rightarrow> int \<Rightarrow> 's \<Rightarrow> 's option" where
  "while_loop_from cond body maximum_iterations i loop_vars =
     (if cond loop_vars
      then if maximum_iterations \<noteq> None \<and> Some i = maximum_iterations
           then Some loop_vars
           else while_loop_from cond body maximum_iterations (i + 1) (body loop_vars)
      else Some loop_vars)"

definition while_loop ::
  "('s \<Rightarrow> bool) \<Rightarrow> ('s \<Rightarrow> 's) \<Rightarrow> 's \<Rightarrow> int option \<Rightarrow> 's option" where
  "while_loop cond body loop_vars maximum_iterations =
     while_loop_from cond body maximum_iterations 0 loop_vars"

subsection \<open>\<^verbatim>\<open>functional_gradient\<close>\<close>

text \<open>
  A value returned by the differentiated function: a number, or a tuple or list of values.
  The differentiation of the library is a parameter \<open>D\<close>: \<open>D g i args\<close> is the gradient of
  the scalar function \<open>g\<close> at \<open>args\<close> with respect to argument \<open>i\<close>.
  \<^verbatim>\<open>jax.value_and_grad(fun, argnums, has_aux=True)\<close> and \<^verbatim>\<open>jax.grad(fun, argnums)\<close> call
  \<open>fun\<close>, refuse an output that is not a scalar, and return the gradients for the positions
  \<open>argnums\<close>; they refuse an empty \<open>argnums\<close> and a position beyond the arguments.
\<close>

datatype obj = Num real | Seq "obj list"

type_synonym ('x, 'g) differentiation = "('x list \<Rightarrow> real) \<Rightarrow> nat \<Rightarrow> 'x list \<Rightarrow> 'g"

definition scalar :: "obj \<Rightarrow> real" where
  "scalar r = (case r of Num v \<Rightarrow> v | Seq _ \<Rightarrow> 0)"

definition value_and_grad ::
  "('x, 'g) differentiation \<Rightarrow> ('x list \<Rightarrow> error + (obj \<times> 'a)) \<Rightarrow> nat list \<Rightarrow> 'x list \<Rightarrow>
     error + ((obj \<times> 'a) \<times> 'g list)" where
  "value_and_grad D fun argnums args =
     (if argnums = [] then Inl ValueError
      else if list_ex (\<lambda>i. length args \<le> i) argnums then Inl TypeError
      else case fun args of
             Inl e \<Rightarrow> Inl e
           | Inr (ans, aux) \<Rightarrow>
              (case ans of
                 Seq _ \<Rightarrow> Inl TypeError
               | Num _ \<Rightarrow>
                   Inr ((ans, aux),
                        map (\<lambda>i. D (\<lambda>a. case fun a of Inl _ \<Rightarrow> 0
                                           | Inr (ans', _) \<Rightarrow> scalar ans') i args) argnums)))"

definition grad ::
  "('x, 'g) differentiation \<Rightarrow> ('x list \<Rightarrow> error + obj) \<Rightarrow> nat list \<Rightarrow> 'x list \<Rightarrow>
     error + 'g list" where
  "grad D fun argnums args =
     (case value_and_grad D (\<lambda>a. case fun a of Inl e \<Rightarrow> Inl e | Inr r \<Rightarrow> Inr (r, ()))
             argnums args of
        Inl e \<Rightarrow> Inl e
      | Inr (_, grads) \<Rightarrow> Inr grads)"

definition aux_f :: "('x list \<Rightarrow> obj) \<Rightarrow> 'x list \<Rightarrow> error + (obj \<times> obj list option)" where
  "aux_f f args =
     (let result = f args
      in case result of
           Seq items \<Rightarrow>
             if length items > 1 then Inr (hd items, Some (tl items)) else Inr (result, None)
         | Num _ \<Rightarrow> Inr (result, None))"

definition nonaux_f :: "('x list \<Rightarrow> obj) \<Rightarrow> 'x list \<Rightarrow> error + obj" where
  "nonaux_f f args =
     (let result = f args
      in case result of
           Seq items \<Rightarrow> (case items of [] \<Rightarrow> Inl IndexError | r # _ \<Rightarrow> Inr r)
         | Num _ \<Rightarrow> Inr result)"

definition unwrap_outputs ::
  "('x, 'g) differentiation \<Rightarrow> ('x list \<Rightarrow> obj) \<Rightarrow> nat list \<Rightarrow> 'x list \<Rightarrow>
     error + (obj + 'g) list" where
  "unwrap_outputs D f wrt args =
     (case value_and_grad D (aux_f f) wrt args of
        Inl e \<Rightarrow> Inl e
      | Inr ((loss, aux), grads) \<Rightarrow>
         (case aux of
            Some aux' \<Rightarrow> Inr (Inl loss # map Inl aux' @ map Inr grads)
          | None \<Rightarrow> Inr (Inl loss # map Inr grads)))"

definition functional_gradient ::
  "('x, 'g) differentiation \<Rightarrow> ('x list \<Rightarrow> obj) \<Rightarrow> nat list \<Rightarrow> bool \<Rightarrow> 'x list \<Rightarrow>
     error + (obj + 'g) list" where
  "functional_gradient D f wrt get_output =
     (if get_output then unwrap_outputs D f wrt
      else (\<lambda>args. case grad D (nonaux_f f) wrt args of
                     Inl e \<Rightarrow> Inl e
                   | Inr grads \<Rightarrow> Inr (map Inr grads)))"

subsection \<open>The state of the backend\<close>

text \<open>
  What the methods read and assign: the attribute \<^verbatim>\<open>rnd_key\<close> (\<open>None\<close> when the key
  could not be made), the working precision that \<^verbatim>\<open>self.precision\<close> reports, and the
  library's switch \<^verbatim>\<open>jax_enable_x64\<close>. The library's random number functions are
  parameters: \<open>PRNGKey seed\<close> makes a key or raises, \<open>split\<close> turns a key into two.
\<close>

record 'key backend =
  rnd_key :: "'key option"
  precision :: nat
  x64_enabled :: bool

definition init :: "(nat \<Rightarrow> error + 'key) \<Rightarrow> nat \<Rightarrow> bool \<Rightarrow> error + 'key backend" where
  "init PRNGKey precision0 x64 =
     (case PRNGKey 0 of
        Inr key \<Rightarrow> Inr \<lparr>rnd_key = Some key, precision = precision0, x64_enabled = x64\<rparr>
      | Inl RuntimeError \<Rightarrow>
          Inr \<lparr>rnd_key = None, precision = precision0, x64_enabled = x64\<rparr>
      | Inl e \<Rightarrow> Inl e)"

definition check_float64 :: "'key backend \<Rightarrow> error + 'key backend" where
  "check_float64 self =
     (if precision self = 64
      then let self' = (if \<not> x64_enabled self then self\<lparr>x64_enabled := True\<rparr> else self)
           in if x64_enabled self' then Inr self' else Inl AssertionError
      else Inr self)"

subsection \<open>\<^verbatim>\<open>as_tensor\<close> and \<^verbatim>\<open>cast\<close>\<close>

datatype kind = KBool | KInt | KFloat | KComplex

record DType =
  kind :: kind
  bits :: nat

text \<open>
  An array is the data type the library gave it (\<open>'np\<close>) and its cells (\<open>'d\<close>). A Python
  value that reaches the backend is an array of the library, one of its booleans, an array
  of NumPy, a number, a string, a tuple or list, or something else.
\<close>

record ('np, 'd) array =
  array_dtype :: 'np
  array_data :: 'd

datatype number = PyBool bool | PyInt int | PyFloat real | PyComplex complex

datatype ('np, 'd) pyvalue =
    JnpArray "('np, 'd) array"
  | JnpBool "('np, 'd) array"
  | NpArray "('np, 'd) array"
  | Number number
  | Str string
  | Sequence "('np, 'd) pyvalue list"
  | Other

fun is_tensor :: "('np, 'd) pyvalue \<Rightarrow> bool \<Rightarrow> bool" where
  "is_tensor (JnpArray a) only_native = True"
| "is_tensor (JnpBool a) only_native = True"
| "is_tensor (NpArray a) only_native = (\<not> only_native)"
| "is_tensor (Number n) only_native = (\<not> only_native)"
| "is_tensor (Str s) only_native = (\<not> only_native)"
| "is_tensor (Sequence items) only_native =
     (\<not> only_native \<and> list_all (\<lambda>item. is_tensor item False) items)"
| "is_tensor Other only_native = False"

text \<open>
  The library and the data type tables of \<^verbatim>\<open>phi.math.backend\<close> are parameters:
  \<open>jnp_array x t\<close> is \<^verbatim>\<open>jnp.array(x, t)\<close> (\<open>t = None\<close> for \<^verbatim>\<open>jnp.array(x)\<close>), which makes
  an array of the library or raises; \<open>to_numpy_dtype\<close> and \<open>from_numpy_dtype\<close> translate
  between \<^verbatim>\<open>DType\<close> and the library's data types.
\<close>

record ('np, 'd) library =
  jnp_array :: "('np, 'd) pyvalue \<Rightarrow> 'np option \<Rightarrow> error + ('np, 'd) array"
  to_numpy_dtype :: "DType \<Rightarrow> 'np"
  from_numpy_dtype :: "'np \<Rightarrow> DType"

text \<open>The attribute \<^verbatim>\<open>x.dtype\<close> of a value that \<open>is_tensor x True\<close> accepts.\<close>

definition native_dtype :: "('np, 'd) pyvalue \<Rightarrow> 'np option" where
  "native_dtype x =
     (case x of JnpArray a \<Rightarrow> Some (array_dtype a) | JnpBool a \<Rightarrow> Some (array_dtype a)
      | _ \<Rightarrow> None)"

definition cast ::
  "('np, 'd) library \<Rightarrow> ('np, 'd) pyvalue \<Rightarrow> DType \<Rightarrow> error + ('np, 'd) pyvalue" where
  "cast lib x dtype =
     (if is_tensor x True \<and> map_option (from_numpy_dtype lib) (native_dtype x) = Some dtype
      then Inr x
      else case jnp_array lib x (Some (to_numpy_dtype lib dtype)) of
             Inl e \<Rightarrow> Inl e
           | Inr a \<Rightarrow> Inr (JnpArray a))"

definition dtype :: "('np, 'd) library \<Rightarrow> ('np, 'd) pyvalue \<Rightarrow> error + DType" where
  "dtype lib array =
     (case array of
        Number (PyBool _) \<Rightarrow> Inr \<lparr>kind = KInt, bits = 32\<rparr>
      | Number (PyInt _) \<Rightarrow> Inr \<lparr>kind = KInt, bits = 32\<rparr>
      | Number (PyFloat _) \<Rightarrow> Inr \<lparr>kind = KFloat, bits = 64\<rparr>
      | Number (PyComplex _) \<Rightarrow> Inr \<lparr>kind = KComplex, bits = 128\<rparr>
      | JnpArray a \<Rightarrow> Inr (from_numpy_dtype lib (array_dtype a))
      | JnpBool a \<Rightarrow> Inr (from_numpy_dtype lib (array_dtype a))
      | NpArray a \<Rightarrow> Inr (from_numpy_dtype lib (array_dtype a))
      | _ \<Rightarrow>
         (case jnp_array lib array None of
            Inl e \<Rightarrow> Inl e
          | Inr a \<Rightarrow> Inr (from_numpy_dtype lib (array_dtype a))))"

text \<open>
  Modelled from the spec: \<^verbatim>\<open>to_float\<close> and \<^verbatim>\<open>float_type\<close> belong to the base class
  \<^verbatim>\<open>Backend\<close>, which is not among the sources. The specification says that float
  results are coerced to the backend's configured working precision (32 or 64 bits).
\<close>

definition float_type :: "'key backend \<Rightarrow> DType" where
  "float_type self = \<lparr>kind = KFloat, bits = precision self\<rparr>"

definition to_float ::
  "('np, 'd) library \<Rightarrow> 'key backend \<Rightarrow> ('np, 'd) pyvalue \<Rightarrow> error + ('np, 'd) pyvalue" where
  "to_float lib self x = cast lib x (float_type self)"

definition as_tensor ::
  "('np, 'd) library \<Rightarrow> 'key backend \<Rightarrow> ('np, 'd) pyvalue \<Rightarrow> bool \<Rightarrow>
     error + (('np, 'd) pyvalue \<times> 'key backend)" where
  "as_tensor lib self x convert_external =
     (case check_float64 self of
        Inl e \<Rightarrow> Inl e
      | Inr self' \<Rightarrow>
     (case (if is_tensor x convert_external then Inr x
            else case jnp_array lib x None of Inl e \<Rightarrow> Inl e | Inr a \<Rightarrow> Inr (JnpArray a)) of
        Inl e \<Rightarrow> Inl e
      | Inr array \<Rightarrow>
         (case array of
            Number _ \<Rightarrow> Inr (array, self')
          | _ \<Rightarrow>
            (case dtype lib array of
               Inl e \<Rightarrow> Inl e
             | Inr dt \<Rightarrow>
                if kind dt = KFloat
                then (case to_float lib self' array of
                        Inl e \<Rightarrow> Inl e
                      | Inr array' \<Rightarrow> Inr (array', self'))
                else Inr (array, self')))))"

subsection \<open>\<^verbatim>\<open>random_uniform\<close> and \<^verbatim>\<open>random_normal\<close>\<close>

text \<open>
  \<open>sample subkey shape t\<close> is the library's sampler (\<^verbatim>\<open>random.uniform\<close> or
  \<^verbatim>\<open>random.normal\<close>) with the data type \<open>t\<close>; both methods have the same body.
\<close>

definition random_sample ::
  "('key \<Rightarrow> 'key \<times> 'key) \<Rightarrow> ('key \<Rightarrow> nat list \<Rightarrow> DType \<Rightarrow> 't) \<Rightarrow> 'key backend \<Rightarrow>
     nat list \<Rightarrow> error + ('t \<times> 'key backend)" where
  "random_sample split sample self shp =
     (case check_float64 self of
        Inl e \<Rightarrow> Inl e
      | Inr self' \<Rightarrow>
         (case rnd_key self' of
            None \<Rightarrow> Inl TypeError
          | Some key \<Rightarrow>
              (case split key of
                 (key', subkey) \<Rightarrow>
                   Inr (sample subkey shp (float_type self'),
                        self'\<lparr>rnd_key := Some key'\<rparr>))))"

definition random_uniform ::
  "('key \<Rightarrow> 'key \<times> 'key) \<Rightarrow> ('key \<Rightarrow> nat list \<Rightarrow> DType \<Rightarrow> 't) \<Rightarrow> 'key backend \<Rightarrow>
     nat list \<Rightarrow> error + ('t \<times> 'key backend)" where
  "random_uniform split uniform self shp = random_sample split uniform self shp"

definition random_normal ::
  "('key \<Rightarrow> 'key \<times> 'key) \<Rightarrow> ('key \<Rightarrow> nat list \<Rightarrow> DType \<Rightarrow> 't) \<Rightarrow> 'key backend \<Rightarrow>
     nat list \<Rightarrow> error + ('t \<times> 'key backend)" where
  "random_normal split normal self shp = random_sample split normal self shp"

text \<open>A sequence of calls on one backend, each a method and a shape; the samples are
  returned in the order of the calls, with the backend after the last call.\<close>

datatype call = Uniform "nat list" | Normal "nat list"

fun run_calls ::
  "('key \<Rightarrow> 'key \<times> 'key) \<Rightarrow> ('key \<Rightarrow> nat list \<Rightarrow> DType \<Rightarrow> 't) \<Rightarrow>
     ('key \<Rightarrow> nat list \<Rightarrow> DType \<Rightarrow> 't) \<Rightarrow> 'key backend \<Rightarrow> call list \<Rightarrow>
     error + ('t list \<times> 'key backend)" where
  "run_calls split uniform normal self [] = Inr ([], self)"
| "run_calls split uniform normal self (c # cs) =
     (case (case c of Uniform shp \<Rightarrow> random_uniform split uniform self shp
                    | Normal shp \<Rightarrow> random_normal split normal self shp) of
        Inl e \<Rightarrow> Inl e
      | Inr (t, self') \<Rightarrow>
         (case run_calls split uniform normal self' cs of
            Inl e \<Rightarrow> Inl e
          | Inr (ts, self'') \<Rightarrow> Inr (t # ts, self'')))"

text \<open>The key a call stores for the next call, and the sub-key of call number \<open>n\<close> on
  a backend whose stored key is \<open>key\<close>.\<close>

definition next_key :: "('key \<Rightarrow> 'key \<times> 'key) \<Rightarrow> 'key \<Rightarrow> 'key" where
  "next_key split key = fst (split key)"

definition subkey_of :: "('key \<Rightarrow> 'key \<times> 'key) \<Rightarrow> 'key \<Rightarrow> nat \<Rightarrow> 'key" where
  "subkey_of split key n = snd (split ((next_key split ^^ n) key))"

text \<open>The sample a call draws from a sub-key at the working precision \<open>p\<close>.\<close>

definition sample_of ::
  "('key \<Rightarrow> nat list \<Rightarrow> DType \<Rightarrow> 't) \<Rightarrow> ('key \<Rightarrow> nat list \<Rightarrow> DType \<Rightarrow> 't) \<Rightarrow> call \<Rightarrow>
     'key \<Rightarrow> nat \<Rightarrow> 't" where
  "sample_of uniform normal c subkey p =
     (case c of
        Uniform shp \<Rightarrow> uniform subkey shp \<lparr>kind = KFloat, bits = p\<rparr>
      | Normal shp \<Rightarrow> normal subkey shp \<lparr>kind = KFloat, bits = p\<rparr>)"

subsection \<open>Instances of the library for running the model\<close>

text \<open>
  A differentiation that is exact on polynomials of degree two (the central difference
  with step 1), and a library whose arrays are lists of cells with \<^verbatim>\<open>DType\<close> itself as
  the data type: a conversion to a boolean type maps every cell to 0 or 1, a conversion to
  an integer type cuts the fraction off, and any other conversion keeps the cells.
\<close>

definition central_difference :: "(real, real) differentiation" where
  "central_difference g i args =
     (g (args[i := args ! i + 1]) - g (args[i := args ! i - 1])) / 2"

definition cell_as :: "DType \<Rightarrow> real \<Rightarrow> real" where
  "cell_as d v =
     (case kind d of
        KBool \<Rightarrow> (if v = 0 then 0 else 1)
      | KInt \<Rightarrow> (if v < 0 then of_int \<lceil>v\<rceil> else of_int \<lfloor>v\<rfloor>)
      | _ \<Rightarrow> v)"

definition example_convert ::
  "(DType, real list) array \<Rightarrow> DType option \<Rightarrow> (DType, real list) array" where
  "example_convert a t =
     (case t of
        None \<Rightarrow> a
      | Some d \<Rightarrow> \<lparr>array_dtype = d, array_data = map (cell_as d) (array_data a)\<rparr>)"

definition example_library :: "(DType, real list) library" where
  "example_library =
     \<lparr>jnp_array = (\<lambda>x t.
        case x of
          JnpArray a \<Rightarrow> Inr (example_convert a t)
        | JnpBool a \<Rightarrow> Inr (example_convert a t)
        | NpArray a \<Rightarrow> Inr (example_convert a t)
        | Number (PyBool b) \<Rightarrow>
            Inr (example_convert
                   \<lparr>array_dtype = \<lparr>kind = KBool, bits = 8\<rparr>,
                    array_data = [if b then 1 else 0]\<rparr> t)
        | Number (PyInt i) \<Rightarrow>
            Inr (example_convert
                   \<lparr>array_dtype = \<lparr>kind = KInt, bits = 32\<rparr>, array_data = [of_int i]\<rparr> t)
        | Number (PyFloat v) \<Rightarrow>
            Inr (example_convert
                   \<lparr>array_dtype = \<lparr>kind = KFloat, bits = 32\<rparr>, array_data = [v]\<rparr> t)
        | _ \<Rightarrow> Inl TypeError),
      to_numpy_dtype = (\<lambda>d. d),
      from_numpy_dtype = (\<lambda>d. d)\<rparr>"

section \<open>Properties\<close>

subsection \<open>Shapes, rows and stacks\<close>

lemma tuple_getitem_0: "tuple_getitem (n # s) 0 = Inr n"
  by (simp add: tuple_getitem_def)

lemma getitem_clamped:
  "shape t = n # s \<Longrightarrow> 0 < n \<Longrightarrow>
     getitem t (min (int b) (int n - 1)) = Inr (row t (min b (n - 1)))"
  by (auto simp: getitem_def Let_def min_def max_def nat_diff_distrib
      intro!: arg_cong[where f="row t"])

lemma stack_same_shape:
  "xs \<noteq> [] \<Longrightarrow> \<forall>u\<in>set xs. shape u = s \<Longrightarrow>
   stack xs = Inr \<lparr>shape = length xs # s, data = (\<lambda>is. data (xs ! hd is) (tl is))\<rparr>"
  by (cases xs) (auto simp: stack_def list_all_iff)

lemma stack_map:
  assumes "0 < B" and "\<And>b. b < B \<Longrightarrow> shape (f b) = s"
  shows "stack (map f [0..<B]) =
           Inr \<lparr>shape = B # s, data = (\<lambda>is. data (map f [0..<B] ! hd is) (tl is))\<rparr>"
  using stack_same_shape[of "map f [0..<B]" s] assms by auto

lemma stack_InrD:
  assumes "stack xs = Inr t"
  shows "xs \<noteq> [] \<and> shape t = length xs # shape (hd xs) \<and> (\<forall>k < length xs. row t k = xs ! k)"
proof -
  from assms obtain v vs where xs: "xs = v # vs" and all: "list_all (\<lambda>u. shape u = shape v) vs"
    and t: "t = \<lparr>shape = length xs # shape v, data = (\<lambda>is. data (xs ! hd is) (tl is))\<rparr>"
    by (auto simp: stack_def split: list.splits if_splits)
  have "shape (xs ! k) = shape v" if "k < length xs" for k
    using that all xs by (cases k) (auto simp: list_all_length)
  then have "row t k = xs ! k" if "k < length xs" for k
    using that t by (simp add: row_def)
  then show ?thesis using xs t by simp
qed

subsection \<open>The batched linear solver\<close>

lemma cg_batches_all:
  assumes "shape y = bs_y # sy" and "0 < bs_y" and "shape x0 = bs_x0 # sx" and "0 < bs_x0"
    and "\<forall>b\<in>set bs. cg A (row y (min b (bs_y - 1))) (row x0 (min b (bs_x0 - 1)))
            (relative_tolerance sp) (absolute_tolerance sp) (max_iterations sp)
          = Inr (sol b, info b)"
  shows "cg_batches cg A y x0 bs_y bs_x0 sp bs = Inr (map sol bs)"
  using assms(5)
proof (induction bs)
  case Nil
  show ?case by simp
next
  case (Cons b bs)
  then show ?case
    using getitem_clamped[OF assms(1,2), of b] getitem_clamped[OF assms(3,4), of b] by simp
qed

lemma conjugate_gradient_batch_size:
  assumes "shape y = bs_y # sy" and "shape x0 = bs_x0 # sx" and "0 < bs_y" and "0 < bs_x0"
    and "bs_y = bs_x0 \<or> bs_y = 1 \<or> bs_x0 = 1"
    and "max bs_y bs_x0 = batch_of A \<or> max bs_y bs_x0 = 1 \<or> batch_of A = 1"
  shows "(case A of Batched ops \<Rightarrow> combined_dim (max bs_y bs_x0) (length ops)
                    | Single _ \<Rightarrow> Inr (max bs_y bs_x0)) = Inr (max (max bs_y bs_x0) (batch_of A))"
  using assms by (cases A) (auto simp: combined_dim_def batch_of_def)

lemma conjugate_gradient_returns:
  assumes y: "shape y = bs_y # sy" and x0: "shape x0 = bs_x0 # sx" and pos: "0 < bs_y" "0 < bs_x0"
    and c1: "bs_y = bs_x0 \<or> bs_y = 1 \<or> bs_x0 = 1"
    and c2: "max bs_y bs_x0 = batch_of A \<or> max bs_y bs_x0 = 1 \<or> batch_of A = 1"
    and ok: "\<forall>b < max (max bs_y bs_x0) (batch_of A).
               cg A (row y (min b (bs_y - 1))) (row x0 (min b (bs_x0 - 1)))
                 (relative_tolerance sp) (absolute_tolerance sp) (max_iterations sp)
               = Inr (sol b, info b) \<and> shape (sol b) = s"
  shows "\<exists>x. conjugate_gradient cg A y x0 sp =
               Inr (x, sp\<lparr>result := Some \<lparr>success = True, iterations = - 1\<rparr>\<rparr>) \<and>
             shape x = max (max bs_y bs_x0) (batch_of A) # s \<and>
             (\<forall>b < max (max bs_y bs_x0) (batch_of A). row x b = sol b)"
proof -
  let ?n = "max (max bs_y bs_x0) (batch_of A)"
  let ?x = "\<lparr>shape = ?n # s, data = (\<lambda>is. data (map sol [0..<?n] ! hd is) (tl is))\<rparr>"
  have n: "0 < ?n" using pos by simp
  have cd: "combined_dim bs_y bs_x0 = Inr (max bs_y bs_x0)"
    using c1 by (simp add: combined_dim_def)
  have loop: "cg_batches cg A y x0 bs_y bs_x0 sp [0..<?n] = Inr (map sol [0..<?n])"
    using cg_batches_all[OF y pos(1) x0 pos(2), of "[0..<?n]" cg A sp sol info] ok by simp
  have st: "stack (map sol [0..<?n]) = Inr ?x"
    using stack_map[OF n, of sol s] ok by simp
  have "conjugate_gradient cg A y x0 sp =
          Inr (?x, sp\<lparr>result := Some \<lparr>success = True, iterations = - 1\<rparr>\<rparr>)"
    unfolding conjugate_gradient_def staticshape_def y x0
    by (simp only: tuple_getitem_0 cd conjugate_gradient_batch_size[OF y x0 pos c1 c2]
        loop st sum.case)
  moreover have "row ?x b = sol b" if "b < ?n" for b
    using that ok by (simp add: row_def)
  ultimately show ?thesis by auto
qed

lemma conjugate_gradient_mismatch:
  assumes y: "shape y = bs_y # sy" and x0: "shape x0 = bs_x0 # sx"
    and bad: "\<not> (bs_y = bs_x0 \<or> bs_y = 1 \<or> bs_x0 = 1) \<or>
              \<not> (max bs_y bs_x0 = batch_of A \<or> max bs_y bs_x0 = 1 \<or> batch_of A = 1)"
  shows "conjugate_gradient cg A y x0 sp = Inl IncompatibleDimensions"
  using bad unfolding conjugate_gradient_def staticshape_def y x0
  by (cases A) (auto simp: tuple_getitem_0 combined_dim_def batch_of_def)

lemma cg_batches_relabel:
  "cg_batches (relabel g cg) A y x0 bs_y bs_x0 sp bs = cg_batches cg A y x0 bs_y bs_x0 sp bs"
  by (induction bs) (auto simp: relabel_def split: sum.splits)

lemma conjugate_gradient_relabel:
  "conjugate_gradient (relabel g cg) A y x0 sp = conjugate_gradient cg A y x0 sp"
  by (simp add: conjugate_gradient_def cg_batches_relabel split: sum.splits)

lemma cg_batches_InrD:
  assumes "cg_batches cg A y x0 bs_y bs_x0 sp bs = Inr results"
  shows "length results = length bs \<and>
         (\<forall>k < length bs. \<exists>y' x0' info.
            getitem y (min (int (bs ! k)) (int bs_y - 1)) = Inr y' \<and>
            getitem x0 (min (int (bs ! k)) (int bs_x0 - 1)) = Inr x0' \<and>
            cg A y' x0' (relative_tolerance sp) (absolute_tolerance sp) (max_iterations sp)
              = Inr (results ! k, info))"
  using assms
proof (induction bs arbitrary: results)
  case Nil
  then show ?case by simp
next
  case (Cons b bs)
  from Cons.prems obtain y' x0' x info rest where
    f: "getitem y (min (int b) (int bs_y - 1)) = Inr y'"
       "getitem x0 (min (int b) (int bs_x0 - 1)) = Inr x0'"
       "cg A y' x0' (relative_tolerance sp) (absolute_tolerance sp) (max_iterations sp)
          = Inr (x, info)"
       "cg_batches cg A y x0 bs_y bs_x0 sp bs = Inr rest" "results = x # rest"
    by (auto split: sum.splits)
  from Cons.IH[OF f(4)] have ih: "length rest = length bs"
    "\<forall>k < length bs. \<exists>y' x0' info.
            getitem y (min (int (bs ! k)) (int bs_y - 1)) = Inr y' \<and>
            getitem x0 (min (int (bs ! k)) (int bs_x0 - 1)) = Inr x0' \<and>
            cg A y' x0' (relative_tolerance sp) (absolute_tolerance sp) (max_iterations sp)
              = Inr (rest ! k, info)"
    by simp_all
  show ?case
  proof (intro conjI allI impI)
    show "length results = length (b # bs)" using ih(1) f(5) by simp
  next
    fix k assume "k < length (b # bs)"
    then show "\<exists>y' x0' info.
            getitem y (min (int ((b # bs) ! k)) (int bs_y - 1)) = Inr y' \<and>
            getitem x0 (min (int ((b # bs) ! k)) (int bs_x0 - 1)) = Inr x0' \<and>
            cg A y' x0' (relative_tolerance sp) (absolute_tolerance sp) (max_iterations sp)
              = Inr (results ! k, info)"
      using f ih(2) by (cases k) auto
  qed
qed

text \<open>
  C1, as the code has it. A call of \<^verbatim>\<open>conjugate_gradient\<close> that returns has stored the
  record \<^verbatim>\<open>SolveResult(success=True, iterations=-1)\<close> in \<^verbatim>\<open>solve_params.result\<close>; every
  part of the returned tensor is the iterate that the routine \<open>cg\<close> returned for that batch
  element, whatever the routine reported about it; and a routine that reports something
  else about the same iterates leads to the same tensor and the same record. So a batch
  element that has not reached the tolerances is returned as it is and raises nothing, and
  the record does not tell it from one that has.
\<close>

theorem conjugate_gradient_reports_success:
  assumes "conjugate_gradient cg A y x0 sp = Inr (x, sp')"
  shows "sp' = sp\<lparr>result := Some \<lparr>success = True, iterations = - 1\<rparr>\<rparr> \<and>
         (\<forall>b < hd (shape x). \<exists>y' x0' info.
            getitem y (min (int b) (int (hd (shape y)) - 1)) = Inr y' \<and>
            getitem x0 (min (int b) (int (hd (shape x0)) - 1)) = Inr x0' \<and>
            cg A y' x0' (relative_tolerance sp) (absolute_tolerance sp) (max_iterations sp)
              = Inr (row x b, info)) \<and>
         conjugate_gradient (relabel g cg) A y x0 sp = Inr (x, sp')"
proof -
  from assms obtain bs_y bs_x0 n results where
    f: "tuple_getitem (shape y) 0 = Inr bs_y" "tuple_getitem (shape x0) 0 = Inr bs_x0"
       "cg_batches cg A y x0 bs_y bs_x0 sp [0..<n] = Inr results" "stack results = Inr x"
       "sp' = sp\<lparr>result := Some \<lparr>success = True, iterations = - 1\<rparr>\<rparr>"
    unfolding conjugate_gradient_def staticshape_def
    by (auto split: sum.splits)
  have hy: "hd (shape y) = bs_y" and hx: "hd (shape x0) = bs_x0"
    using f(1,2) by (auto simp: tuple_getitem_def Let_def hd_conv_nth split: if_splits)
  from cg_batches_InrD[OF f(3)] have len: "length results = n"
    and each: "\<forall>k < n. \<exists>y' x0' info.
            getitem y (min (int k) (int bs_y - 1)) = Inr y' \<and>
            getitem x0 (min (int k) (int bs_x0 - 1)) = Inr x0' \<and>
            cg A y' x0' (relative_tolerance sp) (absolute_tolerance sp) (max_iterations sp)
              = Inr (results ! k, info)"
    by auto
  from stack_InrD[OF f(4)] have st: "hd (shape x) = n" "\<forall>k < n. row x k = results ! k"
    using len by auto
  show ?thesis
    using f(5) each st hy hx assms by (simp add: conjugate_gradient_relabel)
qed

theorem conjugate_gradient_reports_success_witness:
  "\<exists>x sp'.
     conjugate_gradient textbook_cg (Single [[1, 0], [0, 2]]) (of_matrix [[1, 1]])
       (of_matrix [[0, 0]])
       \<lparr>relative_tolerance = 1 / 100000, absolute_tolerance = 0, max_iterations = 1,
        result = None\<rparr> = Inr (x, sp') \<and>
     sp' = \<lparr>relative_tolerance = 1 / 100000, absolute_tolerance = 0, max_iterations = 1,
            result = Some \<lparr>success = True, iterations = - 1\<rparr>\<rparr> \<and>
     conjugate_gradient (relabel (\<lambda>u. False) textbook_cg) (Single [[1, 0], [0, 2]])
       (of_matrix [[1, 1]]) (of_matrix [[0, 0]])
       \<lparr>relative_tolerance = 1 / 100000, absolute_tolerance = 0, max_iterations = 1,
        result = None\<rparr> = Inr (x, sp')"
proof -
  let ?sp = "\<lparr>relative_tolerance = 1 / 100000, absolute_tolerance = 0, max_iterations = 1,
              result = None\<rparr>"
  let ?call = "conjugate_gradient textbook_cg (Single [[1, 0], [0, 2]]) (of_matrix [[1, 1]])
                 (of_matrix [[0, 0]]) ?sp"
  have "map_sum id (\<lambda>(x, sp'). shape x) ?call = Inr [1, 2]"
    by (simp add: conjugate_gradient_def staticshape_def tuple_getitem_def combined_dim_def
        getitem_def row_def stack_def textbook_cg_def of_matrix_def of_vector_def vector_def
        residual_def axpy_def matvec_def dot_def Let_def power2_eq_square upt_conv_Cons)
  then obtain x sp' where eq: "?call = Inr (x, sp')"
    by (cases ?call) auto
  from conjugate_gradient_reports_success[OF eq, of "\<lambda>u. False"] eq
  show ?thesis by simp
qed

text \<open>
  The claim C1 says that an element that does not reach the tolerances is reported by
  \<^verbatim>\<open>success=False\<close>. One step of the routine on the system with the matrix
  \<open>[[1, 0], [0, 2]]\<close> and the right-hand side \<open>[1, 1]\<close> ends at \<open>[2/3, 2/3]\<close>, which is
  not within the tolerance, and the record says \<^verbatim>\<open>success=True\<close>.
\<close>

theorem conjugate_gradient_success_counterexample:
  "map_sum id (\<lambda>(x, sp'). (shape x, vector (row x 0), result sp'))
     (conjugate_gradient textbook_cg (Single [[1, 0], [0, 2]]) (of_matrix [[1, 1]])
        (of_matrix [[0, 0]])
        \<lparr>relative_tolerance = 1 / 100000, absolute_tolerance = 0, max_iterations = 1,
          result = None\<rparr>)
   = Inr ([1, 2], [2 / 3, 2 / 3], Some \<lparr>success = True, iterations = - 1\<rparr>)
   \<and> \<not> reached_tolerance [[1, 0], [0, 2]] [1, 1] [2 / 3, 2 / 3] (1 / 100000) 0"
  by (simp add: conjugate_gradient_def staticshape_def tuple_getitem_def combined_dim_def
      getitem_def row_def stack_def textbook_cg_def of_matrix_def of_vector_def vector_def
      residual_def axpy_def matvec_def dot_def reached_tolerance_def Let_def power2_eq_square
      upt_conv_Cons)

text \<open>
  With a single operator and batch sizes of at least 1: when the two sides are equal or one
  of them is 1, and the routine returns an iterate for every batch element, the call
  returns \<open>max bs_y bs_x0\<close> solutions; solution \<open>b\<close> is the routine's iterate for row
  \<open>min b (bs_y - 1)\<close> of \<open>y\<close> and row \<open>min b (bs_x0 - 1)\<close> of \<open>x0\<close>, so a side of size 1
  serves every batch element. Any other pair of batch sizes is an error.
\<close>

lemma conjugate_gradient_single_batch:
  assumes "shape y = bs_y # sy" and "shape x0 = bs_x0 # sx" and "0 < bs_y" and "0 < bs_x0"
  shows "((bs_y = bs_x0 \<or> bs_y = 1 \<or> bs_x0 = 1) \<and>
          (\<forall>b < max bs_y bs_x0.
             cg (Single M) (row y (min b (bs_y - 1))) (row x0 (min b (bs_x0 - 1)))
               (relative_tolerance sp) (absolute_tolerance sp) (max_iterations sp)
             = Inr (sol b, info b) \<and> shape (sol b) = s)
          \<longrightarrow> (\<exists>x sp'. conjugate_gradient cg (Single M) y x0 sp = Inr (x, sp') \<and>
                 shape x = max bs_y bs_x0 # s \<and>
                 (\<forall>b < max bs_y bs_x0. row x b = sol b)))
       \<and> (\<not> (bs_y = bs_x0 \<or> bs_y = 1 \<or> bs_x0 = 1)
          \<longrightarrow> conjugate_gradient cg (Single M) y x0 sp = Inl IncompatibleDimensions)"
proof (intro conjI impI)
  assume h: "(bs_y = bs_x0 \<or> bs_y = 1 \<or> bs_x0 = 1) \<and>
          (\<forall>b < max bs_y bs_x0.
             cg (Single M) (row y (min b (bs_y - 1))) (row x0 (min b (bs_x0 - 1)))
               (relative_tolerance sp) (absolute_tolerance sp) (max_iterations sp)
             = Inr (sol b, info b) \<and> shape (sol b) = s)"
  have n: "max (max bs_y bs_x0) (batch_of (Single M)) = max bs_y bs_x0"
    using assms(3) by (simp add: batch_of_def)
  from conjugate_gradient_returns[OF assms, of "Single M" cg sp sol info s] h
  show "\<exists>x sp'. conjugate_gradient cg (Single M) y x0 sp = Inr (x, sp') \<and>
                 shape x = max bs_y bs_x0 # s \<and>
                 (\<forall>b < max bs_y bs_x0. row x b = sol b)"
    unfolding n by (auto simp: batch_of_def)
next
  assume "\<not> (bs_y = bs_x0 \<or> bs_y = 1 \<or> bs_x0 = 1)"
  then show "conjugate_gradient cg (Single M) y x0 sp = Inl IncompatibleDimensions"
    using conjugate_gradient_mismatch[OF assms(1,2), of "Single M" cg sp] by blast
qed

text \<open>A right-hand side of batch size 4 and an initial guess of batch size 1 give four
  solutions; batch sizes 3 and 2 are refused.\<close>

lemma conjugate_gradient_four_by_one:
  "(\<exists>x sp'.
      conjugate_gradient textbook_cg (Single [[2]]) (of_matrix [[2], [4], [6], [8]])
        (of_matrix [[0]])
        \<lparr>relative_tolerance = 1 / 100000, absolute_tolerance = 0, max_iterations = 1,
         result = None\<rparr> = Inr (x, sp') \<and>
      shape x = [4, 1] \<and>
      map (\<lambda>b. vector (row x b)) [0, 1, 2, 3] = [[1], [2], [3], [4]]) \<and>
   conjugate_gradient textbook_cg (Single [[2]]) (of_matrix [[2], [4], [6]])
        (of_matrix [[0], [0]])
        \<lparr>relative_tolerance = 1 / 100000, absolute_tolerance = 0, max_iterations = 1,
         result = None\<rparr> = Inl IncompatibleDimensions"
proof -
  let ?sp = "\<lparr>relative_tolerance = 1 / 100000, absolute_tolerance = 0, max_iterations = 1,
              result = None\<rparr>"
  let ?y = "of_matrix [[2], [4], [6], [8 :: real]]"
  let ?x0 = "of_matrix [[0 :: real]]"
  let ?sol = "\<lambda>b. of_vector [real b + 1]"
  have sy: "shape ?y = 4 # [1]" and sx: "shape ?x0 = 1 # [1]"
    by (simp_all add: of_matrix_def)
  have ok: "\<forall>b < max 4 1.
             textbook_cg (Single [[2]]) (row ?y (min b (4 - 1))) (row ?x0 (min b (1 - 1)))
               (relative_tolerance ?sp) (absolute_tolerance ?sp) (max_iterations ?sp)
             = Inr (?sol b, ()) \<and> shape (?sol b) = [1]"
    by (simp add: All_less_Suc numeral_eq_Suc textbook_cg_def row_def of_matrix_def
        of_vector_def vector_def residual_def axpy_def matvec_def dot_def Let_def
        power2_eq_square)
  have a: "\<exists>x sp'. conjugate_gradient textbook_cg (Single [[2]]) ?y ?x0 ?sp = Inr (x, sp') \<and>
                 shape x = max 4 1 # [1] \<and> (\<forall>b < max 4 1. row x b = ?sol b)"
    using conjugate_gradient_single_batch[OF sy sx, of textbook_cg "[[2]]" ?sp ?sol
        "\<lambda>b. ()" "[1]"] ok
    by simp
  have sy3: "shape (of_matrix [[2], [4], [6 :: real]]) = 3 # [1]"
    and sx2: "shape (of_matrix [[0], [0 :: real]]) = 2 # [1]"
    by (simp_all add: of_matrix_def)
  have b: "conjugate_gradient textbook_cg (Single [[2]]) (of_matrix [[2], [4], [6]])
        (of_matrix [[0], [0]]) ?sp = Inl IncompatibleDimensions"
    using conjugate_gradient_single_batch[OF sy3 sx2, of textbook_cg "[[2]]" ?sp]
    by simp
  from a obtain x sp' where
    x: "conjugate_gradient textbook_cg (Single [[2]]) ?y ?x0 ?sp = Inr (x, sp')"
    "shape x = [4, 1]" "\<forall>b < 4. row x b = ?sol b"
    by auto
  have m: "map (\<lambda>b. vector (row x b)) [0, 1, 2, 3] = [[1], [2], [3], [4]]"
    using x(3) by (simp add: vector_def of_vector_def)
  show ?thesis
    by (intro conjI exI[of _ x] exI[of _ sp']) (rule x(1) x(2) m b)+
qed

lemma cg_batches_whole_operator:
  "cg_batches (\<lambda>A'. cg A) A y x0 bs_y bs_x0 sp bs = cg_batches cg A y x0 bs_y bs_x0 sp bs"
  by (induction bs) (auto split: sum.splits)

text \<open>
  C4 for a batch of operators. The source adds the batch size of \<open>A\<close> to the combined
  batch size, and then hands the whole of \<open>A\<close> to the routine for every batch element: the
  routine never receives the operator of one batch element, while rows of \<open>y\<close> and \<open>x0\<close>
  are selected with \<^verbatim>\<open>min(batch, bs - 1)\<close>. For the two operators \<open>[[2]]\<close> and \<open>[[4]]\<close>, the
  right-hand sides \<open>[2]\<close> and \<open>[8]\<close> and the initial guesses \<open>[0]\<close> and \<open>[0]\<close>, the routine
  refuses the batch of operators and the call raises, where solving every system with its
  own operator gives the two solutions \<open>[1]\<close> and \<open>[2]\<close>.
\<close>

theorem conjugate_gradient_batched_operator:
  "conjugate_gradient cg A y x0 sp = conjugate_gradient (\<lambda>A'. cg A) A y x0 sp \<and>
   conjugate_gradient textbook_cg (Batched [[[2]], [[4]]]) (of_matrix [[2], [8]])
     (of_matrix [[0], [0]])
     \<lparr>relative_tolerance = 1 / 100000, absolute_tolerance = 0, max_iterations = 1,
      result = None\<rparr> = Inl ValueError \<and>
   map (\<lambda>b. map_sum id (\<lambda>(x, info). vector x)
              (textbook_cg (Single ([[[2]], [[4]]] ! b)) (row (of_matrix [[2], [8]]) b)
                 (row (of_matrix [[0], [0]]) b) (1 / 100000) 0 1)) [0, 1]
     = [Inr [1], Inr [2]]"
proof (intro conjI)
  show "conjugate_gradient cg A y x0 sp = conjugate_gradient (\<lambda>A'. cg A) A y x0 sp"
    by (simp add: conjugate_gradient_def cg_batches_whole_operator split: sum.splits)
next
  show "conjugate_gradient textbook_cg (Batched [[[2]], [[4]]]) (of_matrix [[2], [8]])
     (of_matrix [[0], [0]])
     \<lparr>relative_tolerance = 1 / 100000, absolute_tolerance = 0, max_iterations = 1,
      result = None\<rparr> = Inl ValueError"
    by (simp add: conjugate_gradient_def staticshape_def tuple_getitem_def combined_dim_def
        getitem_def textbook_cg_def of_matrix_def upt_conv_Cons)
next
  show "map (\<lambda>b. map_sum id (\<lambda>(x, info). vector x)
              (textbook_cg (Single ([[[2]], [[4]]] ! b)) (row (of_matrix [[2], [8]]) b)
                 (row (of_matrix [[0], [0]]) b) (1 / 100000) 0 1)) [0, 1]
     = [Inr [1], Inr [2]]"
    by (simp add: textbook_cg_def row_def of_matrix_def of_vector_def vector_def residual_def
        axpy_def matvec_def dot_def Let_def power2_eq_square)
qed

subsection \<open>Scatter\<close>













text \<open>Without the guard \<^verbatim>\<open>jnp.maximum(1, counts)\<close> a cell that receives no write would be
  the quotient of two zeros.\<close>

lemma divide_zeros: "data (divide (zeros shp) (zeros shp)) is = NaN"
  by (simp add: divide_def zeros_def fdiv_def)

text \<open>
  C9. The two assertions at the entry of \<^verbatim>\<open>scatter\<close> come before everything else: when
  \<^verbatim>\<open>duplicates_handling\<close> is not one of \<^verbatim>\<open>'undefined'\<close>, \<^verbatim>\<open>'add'\<close>, \<^verbatim>\<open>'mean'\<close>, \<^verbatim>\<open>'any'\<close> or
  \<^verbatim>\<open>outside_handling\<close> is not one of \<^verbatim>\<open>'discard'\<close>, \<^verbatim>\<open>'clamp'\<close>, \<^verbatim>\<open>'undefined'\<close>, the call ends
  in the assertion failure, whatever the indices, the values and the shape are. So every
  other outcome, a tensor or another exception, is reached with these policy values only.
\<close>

theorem scatter_validates_policies:
  "(duplicates_handling \<notin> set [''undefined'', ''add'', ''mean'', ''any''] \<or>
    outside_handling \<notin> set [''discard'', ''clamp'', ''undefined''] \<longrightarrow>
      scatter indices values shp duplicates_handling outside_handling = Inl AssertionError) \<and>
   (scatter indices values shp duplicates_handling outside_handling \<noteq> Inl AssertionError \<longrightarrow>
      duplicates_handling \<in> set [''undefined'', ''add'', ''mean'', ''any''] \<and>
      outside_handling \<in> set [''discard'', ''clamp'', ''undefined''])"
proof -
  have "scatter indices values shp duplicates_handling outside_handling = Inl AssertionError"
    if "duplicates_handling \<notin> set [''undefined'', ''add'', ''mean'', ''any''] \<or>
      outside_handling \<notin> set [''discard'', ''clamp'', ''undefined'']"
    using that unfolding scatter_def by auto
  then show ?thesis by blast
qed

theorem scatter_validates_policies_witness:
  "scatter (of_cube [[[0, 0]]]) (of_cube [[[1]]]) [2, 2] ''last'' ''undefined''
     = Inl AssertionError \<and>
   scatter (of_cube [[[0, 0]]]) (of_cube [[[1]]]) [2, 2] ''mean'' ''wrap''
     = Inl AssertionError \<and>
   scatter (of_cube [[[0, 0]]]) (of_cube [[[1]]]) [2, 2] ''add'' ''clamp''
     = Inl NotImplementedError \<and>
   ''add'' \<in> set [''undefined'', ''add'', ''mean'', ''any''] \<and>
   ''clamp'' \<in> set [''discard'', ''clamp'', ''undefined'']"
proof -
  have n: "scatter (of_cube [[[0, 0]]]) (of_cube [[[1]]]) [2, 2] ''add'' ''clamp''
             = Inl NotImplementedError"
    by (simp add: scatter_def tuple_getitem_def combined_dim_def of_cube_def)
  then have "scatter (of_cube [[[0, 0]]]) (of_cube [[[1]]]) [2, 2] ''add'' ''clamp''
               \<noteq> Inl AssertionError"
    by simp
  with scatter_validates_policies[of "''add''" "''clamp''" "of_cube [[[0, 0]]]"
      "of_cube [[[1]]]" "[2, 2]"]
  have v: "''add'' \<in> set [''undefined'', ''add'', ''mean'', ''any''] \<and>
           ''clamp'' \<in> set [''discard'', ''clamp'', ''undefined'']"
    by blast
  have a: "scatter (of_cube [[[0, 0]]]) (of_cube [[[1]]]) [2, 2] ''last'' ''undefined''
             = Inl AssertionError"
    using scatter_validates_policies[of "''last''" "''undefined''" "of_cube [[[0, 0]]]"
      "of_cube [[[1]]]" "[2, 2]"]
    by simp
  have b: "scatter (of_cube [[[0, 0]]]) (of_cube [[[1]]]) [2, 2] ''mean'' ''wrap''
             = Inl AssertionError"
    using scatter_validates_policies[of "''mean''" "''wrap''" "of_cube [[[0, 0]]]"
      "of_cube [[[1]]]" "[2, 2]"]
    by simp
  from a b n v show ?thesis by blast
qed

lemma scatter_ignores_outside_handling:
  assumes "oh \<in> set [''discard'', ''clamp'', ''undefined'']"
    and "oh' \<in> set [''discard'', ''clamp'', ''undefined'']"
  shows "scatter indices values shp dh oh = scatter indices values shp dh oh'"
  using assms unfolding scatter_def by auto

lemma scatter_not_implemented:
  assumes "dh \<in> set [''undefined'', ''add'', ''any'']"
    and "oh \<in> set [''discard'', ''clamp'', ''undefined'']"
    and "shape indices = Bi # si" and "shape values = Bv # sv"
    and "Bi = Bv \<or> Bi = 1 \<or> Bv = 1"
  shows "scatter indices values shp dh oh = Inl NotImplementedError"
  using assms unfolding scatter_def
  by (auto simp: tuple_getitem_0 combined_dim_def)

text \<open>
  C3 at the call \<^verbatim>\<open>scatter([[[5, 0]]], [[[7.]]], (2, 1), 'mean', 'clamp')\<close>. The position
  \<open>(5, 0)\<close> lies outside the target of shape \<open>(2, 1)\<close>. The call returns a tensor of zeros,
  the same as with \<^verbatim>\<open>outside_handling='undefined'\<close>: it neither raises nor clamps. Had
  the position been clamped to \<open>(1, 0)\<close>, as the lines kept as a comment in the source
  would do, cell \<open>(1, 0)\<close> would hold 7.
\<close>

theorem scatter_clamp_ignored:
  "map_sum id (\<lambda>r. (shape r, data r [0, 0, 0, 0], data r [0, 1, 0, 0]))
     (scatter (of_cube [[[5, 0]]]) (of_cube [[[7]]]) [2, 1] ''mean'' ''clamp'')
     = Inr ([1, 2, 1, 1], Fin 0, Fin 0) \<and>
   scatter (of_cube [[[5, 0]]]) (of_cube [[[7]]]) [2, 1] ''mean'' ''clamp''
     = scatter (of_cube [[[5, 0]]]) (of_cube [[[7]]]) [2, 1] ''mean'' ''undefined'' \<and>
   map_sum id (\<lambda>r. (shape r, data r [0, 0, 0, 0], data r [0, 1, 0, 0]))
     (scatter (clamp_indices (of_cube [[[5, 0]]]) [2, 1]) (of_cube [[[7]]]) [2, 1] ''mean''
        ''undefined'')
     = Inr ([1, 2, 1, 1], Fin 0, Fin 7)"
  by (simp add: scatter_def tuple_getitem_def combined_dim_def getitem_def row_def
      scatter_add_def scatter_add_step_def stack_def divide_def fdiv_def maximum_def zeros_def
      ones_def
      clamp_indices_def of_cube_def Let_def upt_conv_Cons)

lemma gather_shape:
  "gather values indices = Inr g \<Longrightarrow> shape g = shape indices @ tl (shape values)"
  by (auto simp: gather_def split: list.splits if_splits)

text \<open>
  C6, as the code has it. \<^verbatim>\<open>gather(values, indices)\<close> followed by \<^verbatim>\<open>scatter\<close> with
  \<^verbatim>\<open>duplicates_handling='any'\<close> into the shape of the values never returns a tensor: the
  policy \<^verbatim>\<open>'any'\<close> passes the entry check and is then refused. With values and indices
  of at least one axis, values that are not empty and a valid \<^verbatim>\<open>outside_handling\<close>, the
  exception is \<^verbatim>\<open>NotImplementedError\<close>.
\<close>

theorem gather_then_scatter_any_raises:
  "gather_then_scatter values indices ''any'' outside_handling =
     Inl (if shape values = [] \<or> hd (shape values) = 0 then IndexError
          else if outside_handling \<notin> set [''discard'', ''clamp'', ''undefined'']
               then AssertionError
          else if shape indices = [] then IndexError
          else NotImplementedError)"
proof (cases "gather values indices")
  case (Inl e)
  then show ?thesis
    by (auto simp: gather_then_scatter_def gather_def split: list.splits if_splits)
next
  case (Inr g)
  then have v: "shape values \<noteq> []" "hd (shape values) \<noteq> 0"
    by (auto simp: gather_def split: list.splits if_splits)
  have g: "shape g = shape indices @ tl (shape values)"
    using Inr by (rule gather_shape)
  show ?thesis
  proof (cases "outside_handling \<in> set [''discard'', ''clamp'', ''undefined'']")
    case False
    then show ?thesis using Inr v by (auto simp: gather_then_scatter_def scatter_def)
  next
    case True
    show ?thesis
    proof (cases "shape indices")
      case Nil
      then show ?thesis
        using Inr v True by (auto simp: gather_then_scatter_def scatter_def tuple_getitem_def)
    next
      case (Cons Bi si)
      then have "shape g = Bi # (si @ tl (shape values))" using g by simp
      from scatter_not_implemented[OF _ True Cons this, of "''any''" "shape values"]
      show ?thesis
        using Inr v True Cons by (simp add: gather_then_scatter_def)
    qed
  qed
qed

theorem gather_then_scatter_any_raises_witness:
  "gather_then_scatter (of_matrix [[1, 2], [3, 4]]) (of_cube [[[1, 0]]]) ''any'' ''discard''
     = Inl NotImplementedError"
  using gather_then_scatter_any_raises[of "of_matrix [[1, 2], [3, 4]]" "of_cube [[[1, 0]]]"
      "''discard''"]
  by (simp add: of_matrix_def of_cube_def)

text \<open>
  The claim C6 expects a tensor that agrees with the values. For the values
  \<open>[10, 20, 30]\<close> and the indices \<open>0\<close> and \<open>2\<close>, each in range and present once, the
  round trip raises \<^verbatim>\<open>NotImplementedError\<close>.
\<close>

theorem gather_then_scatter_any_counterexample:
  "gather_then_scatter (of_vector [10, 20, 30]) (of_cube [[[0, 2]]]) ''any'' ''undefined''
     = Inl NotImplementedError"
  by (simp add: gather_then_scatter_def gather_def scatter_def tuple_getitem_def
      combined_dim_def of_vector_def of_cube_def)

subsection \<open>The loop\<close>

lemma while_loop_from_capped:
  assumes "i \<le> k"
  shows "\<exists>n. n \<le> nat (k - i) \<and>
           while_loop_from cond body (Some k) i vars = Some ((body ^^ n) vars) \<and>
           (\<forall>j<n. cond ((body ^^ j) vars)) \<and>
           (n = nat (k - i) \<or> \<not> cond ((body ^^ n) vars))"
  using assms
proof (induction "nat (k - i)" arbitrary: i vars)
  case 0
  then have "i = k" by simp
  then show ?case
    by (intro exI[of _ 0]) (simp add: while_loop_from.simps[of cond body "Some k" k vars])
next
  case (Suc m)
  then have ik: "i < k" by linarith
  show ?case
  proof (cases "cond vars")
    case False
    then show ?thesis
      by (intro exI[of _ 0]) (simp add: while_loop_from.simps[of cond body "Some k" i vars])
  next
    case True
    have m: "m = nat (k - (i + 1))" using Suc.hyps(2) by linarith
    from Suc.hyps(1)[OF m, of "body vars"] ik
    obtain n where n: "n \<le> nat (k - (i + 1))"
      "while_loop_from cond body (Some k) (i + 1) (body vars) = Some ((body ^^ n) (body vars))"
      "\<forall>j<n. cond ((body ^^ j) (body vars))"
      "n = nat (k - (i + 1)) \<or> \<not> cond ((body ^^ n) (body vars))"
      by auto
    have step: "while_loop_from cond body (Some k) i vars =
                  while_loop_from cond body (Some k) (i + 1) (body vars)"
      using True ik by (simp add: while_loop_from.simps[of cond body "Some k" i vars])
    have all: "\<forall>j<Suc n. cond ((body ^^ j) vars)"
    proof (intro allI impI)
      fix j assume "j < Suc n"
      then show "cond ((body ^^ j) vars)"
        using True n(3) by (cases j) (auto simp: funpow_swap1)
    qed
    have sw: "(body ^^ Suc n) vars = (body ^^ n) (body vars)"
      by (simp add: funpow_swap1)
    have le: "Suc n \<le> nat (k - i)" using n(1) ik by linarith
    have last: "Suc n = nat (k - i) \<or> \<not> cond ((body ^^ Suc n) vars)"
      using n(4) ik unfolding sw by linarith
    show ?thesis
      using le all last step n(2) unfolding sw[symmetric]
      by (intro exI[of _ "Suc n"]) simp
  qed
qed

lemma while_loop_from_uncapped:
  assumes "\<forall>j<n. cond ((body ^^ j) vars)" and "\<not> cond ((body ^^ n) vars)"
  shows "while_loop_from cond body None i vars = Some ((body ^^ n) vars)"
  using assms
proof (induction n arbitrary: i vars)
  case 0
  then show ?case by (simp add: while_loop_from.simps[of cond body None i vars])
next
  case (Suc n)
  have c: "cond vars" using Suc.prems(1) by force
  have "\<forall>j<n. cond ((body ^^ j) (body vars))"
    using Suc.prems(1) by (auto simp: funpow_swap1 dest: spec[of _ "Suc _"])
  moreover have "\<not> cond ((body ^^ n) (body vars))"
    using Suc.prems(2) by (simp add: funpow_swap1)
  ultimately have "while_loop_from cond body None (i + 1) (body vars) =
                     Some ((body ^^ n) (body vars))"
    by (rule Suc.IH)
  then show ?case
    using c by (simp add: while_loop_from.simps[of cond body None i vars] funpow_swap1)
qed

text \<open>
  C8. With a cap \<open>k \<ge> 0\<close> the call returns: the result is \<open>body\<close> applied \<open>n\<close> times to
  the initial loop variables, where \<open>n \<le> k\<close>, \<open>cond\<close> holds before each of the \<open>n\<close>
  applications, and either \<open>n = k\<close> or \<open>cond\<close> fails on the result; so the loop stops at
  the first of the two events. Without a cap, when \<open>cond\<close> first fails after \<open>m\<close>
  applications, the call returns the loop variables after these \<open>m\<close> applications. The
  loop has no other exit.
\<close>

theorem while_loop_result:
  "(0 \<le> k \<longrightarrow>
      (\<exists>n. n \<le> nat k \<and>
         while_loop cond body loop_vars (Some k) = Some ((body ^^ n) loop_vars) \<and>
         (\<forall>j<n. cond ((body ^^ j) loop_vars)) \<and>
         (n = nat k \<or> \<not> cond ((body ^^ n) loop_vars)))) \<and>
   ((\<forall>j<m. cond ((body ^^ j) loop_vars)) \<and> \<not> cond ((body ^^ m) loop_vars) \<longrightarrow>
      while_loop cond body loop_vars None = Some ((body ^^ m) loop_vars))"
  using while_loop_from_capped[of 0 k cond body loop_vars]
    while_loop_from_uncapped[of m cond body loop_vars 0]
  by (auto simp: while_loop_def)

theorem while_loop_result_witness:
  "while_loop (\<lambda>v. v < (10 :: int)) (\<lambda>v. v + 3) 0 (Some 2) = Some 6 \<and>
   while_loop (\<lambda>v. v < (10 :: int)) (\<lambda>v. v + 3) 0 (Some 7) = Some 12 \<and>
   while_loop (\<lambda>v. v < (10 :: int)) (\<lambda>v. v + 3) 0 None = Some 12"
proof -
  let ?c = "\<lambda>v. v < (10 :: int)" and ?b = "\<lambda>v :: int. v + 3"
  have p: "(?b ^^ n) 0 = 3 * int n" for n
    by (induction n) auto
  from while_loop_result[of 2 ?c ?b 0 4]
  obtain n where n: "n \<le> 2" "while_loop ?c ?b 0 (Some 2) = Some ((?b ^^ n) 0)"
    "n = 2 \<or> \<not> ?c ((?b ^^ n) 0)"
    by auto
  have "n = 2" using n(1,3) unfolding p by auto
  then have a: "while_loop ?c ?b 0 (Some 2) = Some 6" using n(2) unfolding p by simp
  from while_loop_result[of 7 ?c ?b 0 4]
  obtain n' where n': "n' \<le> 7" "while_loop ?c ?b 0 (Some 7) = Some ((?b ^^ n') 0)"
    "\<forall>j<n'. ?c ((?b ^^ j) 0)" "n' = 7 \<or> \<not> ?c ((?b ^^ n') 0)"
    by auto
  have "\<not> 4 < n'"
  proof
    assume "4 < n'"
    then have "?c ((?b ^^ 4) 0)" using n'(3) by blast
    then show False unfolding p by simp
  qed
  moreover have "\<not> n' < 4" using n'(4) unfolding p by auto
  ultimately have "n' = 4" by simp
  then have b: "while_loop ?c ?b 0 (Some 7) = Some 12" using n'(2) unfolding p by simp
  have "(\<forall>j<4. ?c ((?b ^^ j) 0)) \<and> \<not> ?c ((?b ^^ 4) 0)"
    unfolding p by auto
  with while_loop_result[of 2 ?c ?b 0 4]
  have c: "while_loop ?c ?b 0 None = Some 12" unfolding p by simp
  from a b c show ?thesis by simp
qed

subsection \<open>Gradients\<close>

lemma aux_f_primary:
  "f args = Num v \<Longrightarrow> aux_f f args = Inr (Num v, None)"
  "f args = Seq (r # aux) \<Longrightarrow> aux \<noteq> [] \<Longrightarrow> aux_f f args = Inr (r, Some aux)"
  by (auto simp: aux_f_def Let_def)

text \<open>
  When \<open>f\<close> returns a number, or a sequence of at least two values that starts with a
  number, the callable returns that number, then the other values of the sequence as they
  are, then the gradients for the positions \<open>wrt\<close>.
\<close>

lemma functional_gradient_outputs:
  assumes wrt: "wrt \<noteq> []" "list_all (\<lambda>i. i < length args) wrt"
    and out: "f args = Num v \<or> (\<exists>aux. f args = Seq (Num v # aux) \<and> aux \<noteq> [])"
  shows "functional_gradient D f wrt True args =
           Inr (Inl (Num v)
                # map Inl (case f args of Num _ \<Rightarrow> [] | Seq items \<Rightarrow> tl items)
                @ map (\<lambda>i. Inr (D (\<lambda>a. case aux_f f a of Inl _ \<Rightarrow> 0
                                         | Inr (ans, _) \<Rightarrow> scalar ans) i args)) wrt)"
proof -
  have nex: "wrt \<noteq> []" "\<not> list_ex (\<lambda>i. length args \<le> i) wrt"
    using wrt by (auto simp: list_all_iff list_ex_iff)
  from out show ?thesis
  proof
    assume "f args = Num v"
    then show ?thesis
      using nex
      by (simp add: functional_gradient_def unwrap_outputs_def value_and_grad_def
          aux_f_primary(1) comp_def)
  next
    assume "\<exists>aux. f args = Seq (Num v # aux) \<and> aux \<noteq> []"
    then obtain aux where a: "f args = Seq (Num v # aux)" "aux \<noteq> []" by blast
    have "aux_f f args = Inr (Num v, Some aux)"
      using a by (simp add: aux_f_def Let_def)
    then show ?thesis
      using nex a
      by (simp add: functional_gradient_def unwrap_outputs_def value_and_grad_def comp_def)
  qed
qed

lemma functional_gradient_square:
  "functional_gradient central_difference (\<lambda>args. Num ((args ! 0)\<^sup>2)) [0] True [2]
     = Inr [Inl (Num 4), Inr 4]"
  using functional_gradient_outputs[of "[0]" "[2]" "\<lambda>args. Num ((args ! 0)\<^sup>2)" 4
      central_difference]
  by (simp add: aux_f_def central_difference_def scalar_def)

text \<open>
  C5 at \<^verbatim>\<open>f = lambda x: (x**2,)\<close>, \<^verbatim>\<open>wrt = (0,)\<close>, \<^verbatim>\<open>get_output=True\<close>, \<^verbatim>\<open>x = 2.0\<close>: a
  sequence of one value has the primary output 4 and no auxiliary output. \<^verbatim>\<open>aux_f\<close> hands
  the whole sequence to the library as the quantity to differentiate, which refuses it,
  so the call raises instead of returning \<open>(4, 4)\<close>. The branch for
  \<^verbatim>\<open>get_output=False\<close> takes the first value of the same sequence and returns the
  gradient 4, and \<open>f(x) = x**2\<close> itself gives \<open>(4, 4)\<close>.
\<close>

theorem functional_gradient_one_element_sequence:
  "functional_gradient D (\<lambda>args. Seq [Num ((args ! 0)\<^sup>2)]) [0] True [2] = Inl TypeError \<and>
   aux_f (\<lambda>args. Seq [Num ((args ! 0)\<^sup>2)]) [2 :: real] = Inr (Seq [Num 4], None) \<and>
   nonaux_f (\<lambda>args. Seq [Num ((args ! 0)\<^sup>2)]) [2 :: real] = Inr (Num 4) \<and>
   functional_gradient central_difference (\<lambda>args. Num ((args ! 0)\<^sup>2)) [0] True [2]
     = Inr [Inl (Num 4), Inr 4] \<and>
   functional_gradient central_difference (\<lambda>args. Seq [Num ((args ! 0)\<^sup>2)]) [0] False [2]
     = Inr [Inr 4]"
  by (simp add: functional_gradient_def unwrap_outputs_def value_and_grad_def grad_def aux_f_def
      nonaux_f_def central_difference_def scalar_def Let_def)

subsection \<open>Casting\<close>

lemma native_dtype_Some:
  "native_dtype t = Some np \<Longrightarrow> is_tensor t True"
  by (cases t) (auto simp: native_dtype_def)

lemma cast_own_dtype:
  "native_dtype t = Some np \<Longrightarrow> cast lib t (from_numpy_dtype lib np) = Inr t"
  by (simp add: cast_def native_dtype_Some)

lemma cast_result:
  assumes "cast lib x d = Inr t"
  shows "t = x \<and> map_option (from_numpy_dtype lib) (native_dtype x) = Some d \<or>
         (\<exists>a. t = JnpArray a \<and> jnp_array lib x (Some (to_numpy_dtype lib d)) = Inr a)"
  using assms by (auto simp: cast_def split: if_splits sum.splits)

lemma cast_native:
  assumes "cast lib x d = Inr t"
  shows "\<exists>np. native_dtype t = Some np"
  using cast_result[OF assms] by (auto simp: native_dtype_def)

lemma cast_twice:
  assumes supported: "\<And>x a. jnp_array lib x (Some (to_numpy_dtype lib d)) = Inr a \<Longrightarrow>
                        from_numpy_dtype lib (array_dtype a) = d"
  shows "(case cast lib x d of Inl e \<Rightarrow> Inl e | Inr t \<Rightarrow> cast lib t d) = cast lib x d"
proof (cases "cast lib x d")
  case (Inl e)
  then show ?thesis by simp
next
  case (Inr t)
  from cast_result[OF Inr] have "cast lib t d = Inr t"
  proof
    assume "t = x \<and> map_option (from_numpy_dtype lib) (native_dtype x) = Some d"
    then show ?thesis using Inr by simp
  next
    assume "\<exists>a. t = JnpArray a \<and> jnp_array lib x (Some (to_numpy_dtype lib d)) = Inr a"
    then obtain a where a: "t = JnpArray a" "jnp_array lib x (Some (to_numpy_dtype lib d)) = Inr a"
      by blast
    from supported[OF a(2)] show ?thesis
      by (simp add: cast_def a(1) native_dtype_def)
  qed
  then show ?thesis using Inr by simp
qed

lemma as_tensor_native:
  assumes "as_tensor lib self x True = Inr (t, self')"
  shows "\<exists>np. native_dtype t = Some np"
proof -
  from assms obtain s1 array where
    a: "(if is_tensor x True then Inr x
         else case jnp_array lib x None of Inl e \<Rightarrow> Inl e | Inr a \<Rightarrow> Inr (JnpArray a)) = Inr array"
    and b: "(case array of
            Number _ \<Rightarrow> Inr (array, s1)
          | _ \<Rightarrow>
            (case dtype lib array of
               Inl e \<Rightarrow> Inl e
             | Inr dt \<Rightarrow>
                if kind dt = KFloat
                then (case to_float lib s1 array of
                        Inl e \<Rightarrow> Inl e
                      | Inr array' \<Rightarrow> Inr (array', s1))
                else Inr (array, s1))) = Inr (t, self')"
    unfolding as_tensor_def by (auto split: sum.splits)
  have n: "\<exists>np. native_dtype array = Some np"
    using a by (cases x) (auto simp: native_dtype_def split: if_splits sum.splits)
  then have nn: "\<And>n. array \<noteq> Number n" by (auto simp: native_dtype_def)
  from b n show ?thesis
    using cast_native[of lib array "float_type s1"]
    by (cases array) (auto simp: to_float_def native_dtype_def split: sum.splits if_splits)
qed

text \<open>
  C7. Let \<open>d\<close> be a data type the library supports: every array that \<^verbatim>\<open>jnp.array\<close> makes
  for \<open>to_numpy_dtype d\<close> reports a data type that \<open>from_numpy_dtype\<close> maps back to \<open>d\<close>.
  For every tensor \<open>t\<close> that \<^verbatim>\<open>as_tensor(x)\<close> returns, casting \<open>t\<close> to \<open>d\<close> twice gives what
  casting it once gives (the same tensor or the same exception), and casting \<open>t\<close> to its
  own data type returns \<open>t\<close>.
\<close>

theorem cast_idempotent_on_tensors:
  assumes supported: "\<And>x a. jnp_array lib x (Some (to_numpy_dtype lib d)) = Inr a \<Longrightarrow>
                        from_numpy_dtype lib (array_dtype a) = d"
    and t: "as_tensor lib self x True = Inr (t, self')"
  shows "(case cast lib t d of Inl e \<Rightarrow> Inl e | Inr t' \<Rightarrow> cast lib t' d) = cast lib t d \<and>
         (\<exists>np. native_dtype t = Some np \<and> cast lib t (from_numpy_dtype lib np) = Inr t)"
proof -
  have "(case cast lib t d of Inl e \<Rightarrow> Inl e | Inr t' \<Rightarrow> cast lib t' d) = cast lib t d"
    by (rule cast_twice) (rule supported)
  moreover from as_tensor_native[OF t] obtain np where "native_dtype t = Some np" by blast
  ultimately show ?thesis
    using cast_own_dtype[of t np lib] by blast
qed

theorem cast_idempotent_on_tensors_witness:
  "as_tensor example_library \<lparr>rnd_key = Some (0 :: nat), precision = 32, x64_enabled = False\<rparr>
     (Number (PyFloat (5 / 2))) True
     = Inr (JnpArray \<lparr>array_dtype = \<lparr>kind = KFloat, bits = 32\<rparr>, array_data = [5 / 2]\<rparr>,
            \<lparr>rnd_key = Some 0, precision = 32, x64_enabled = False\<rparr>) \<and>
   cast example_library
     (JnpArray \<lparr>array_dtype = \<lparr>kind = KFloat, bits = 32\<rparr>, array_data = [5 / 2]\<rparr>)
     \<lparr>kind = KInt, bits = 32\<rparr>
     = Inr (JnpArray \<lparr>array_dtype = \<lparr>kind = KInt, bits = 32\<rparr>, array_data = [2]\<rparr>) \<and>
   (case cast example_library
           (JnpArray \<lparr>array_dtype = \<lparr>kind = KFloat, bits = 32\<rparr>, array_data = [5 / 2]\<rparr>)
           \<lparr>kind = KInt, bits = 32\<rparr> of
      Inl e \<Rightarrow> Inl e
    | Inr t' \<Rightarrow> cast example_library t' \<lparr>kind = KInt, bits = 32\<rparr>)
     = Inr (JnpArray \<lparr>array_dtype = \<lparr>kind = KInt, bits = 32\<rparr>, array_data = [2]\<rparr>)"
proof -
  let ?self = "\<lparr>rnd_key = Some (0 :: nat), precision = 32, x64_enabled = False\<rparr>"
  let ?t = "JnpArray \<lparr>array_dtype = \<lparr>kind = KFloat, bits = 32\<rparr>, array_data = [5 / 2 :: real]\<rparr>"
  let ?d = "\<lparr>kind = KInt, bits = 32\<rparr>"
  have sup: "\<And>x a. jnp_array example_library x (Some (to_numpy_dtype example_library ?d)) = Inr a
               \<Longrightarrow> from_numpy_dtype example_library (array_dtype a) = ?d"
    by (auto simp: example_library_def example_convert_def
        split: pyvalue.splits number.splits)
  have at: "as_tensor example_library ?self (Number (PyFloat (5 / 2))) True = Inr (?t, ?self)"
    by (simp add: as_tensor_def check_float64_def example_library_def example_convert_def
        dtype_def to_float_def float_type_def cast_def native_dtype_def)
  have c: "cast example_library ?t ?d
             = Inr (JnpArray \<lparr>array_dtype = ?d, array_data = [2]\<rparr>)"
    by (simp add: cast_def example_library_def example_convert_def native_dtype_def
        cell_as_def)
  from cast_idempotent_on_tensors[OF sup at]
  have idem: "(case cast example_library ?t ?d of Inl e \<Rightarrow> Inl e
               | Inr t' \<Rightarrow> cast example_library t' ?d) = cast example_library ?t ?d"
    by (rule conjunct1)
  show ?thesis
    by (intro conjI) (rule at, rule c, rule trans[OF idem c])
qed

subsection \<open>Random numbers\<close>

lemma check_float64_ok:
  "\<exists>self'. check_float64 self = Inr self' \<and> rnd_key self' = rnd_key self \<and>
           precision self' = precision self"
  by (auto simp: check_float64_def Let_def)

lemma random_sample_step:
  assumes "rnd_key self = Some key"
  shows "\<exists>self'. random_sample split sample self shp =
            Inr (sample (snd (split key)) shp \<lparr>kind = KFloat, bits = precision self\<rparr>, self') \<and>
          rnd_key self' = Some (next_key split key) \<and> precision self' = precision self"
proof -
  from check_float64_ok[of self] obtain s1 where
    s1: "check_float64 self = Inr s1" "rnd_key s1 = rnd_key self" "precision s1 = precision self"
    by blast
  show ?thesis
    using s1 assms
    by (cases "split key") (simp add: random_sample_def float_type_def next_key_def)
qed

lemma subkey_of_Suc:
  "subkey_of split (next_key split key) n = subkey_of split key (Suc n)"
  by (simp add: subkey_of_def funpow_swap1)

lemma run_calls_closed_form:
  assumes "rnd_key self = Some key"
  shows "\<exists>samples self'.
           run_calls split uniform normal self cs = Inr (samples, self') \<and>
           rnd_key self' = Some ((next_key split ^^ length cs) key) \<and>
           precision self' = precision self \<and>
           length samples = length cs \<and>
           (\<forall>n < length cs. samples ! n =
              sample_of uniform normal (cs ! n) (subkey_of split key n) (precision self))"
  using assms
proof (induction cs arbitrary: self key)
  case Nil
  then show ?case by simp
next
  case (Cons c cs)
  let ?sampler = "case c of Uniform shp \<Rightarrow> uniform | Normal shp \<Rightarrow> normal"
  let ?shp = "case c of Uniform shp \<Rightarrow> shp | Normal shp \<Rightarrow> shp"
  from random_sample_step[OF Cons.prems, of split ?sampler ?shp]
  obtain s1 where s1:
    "random_sample split ?sampler self ?shp =
       Inr (?sampler (snd (split key)) ?shp \<lparr>kind = KFloat, bits = precision self\<rparr>, s1)"
    "rnd_key s1 = Some (next_key split key)" "precision s1 = precision self"
    by blast
  from Cons.IH[OF s1(2)] obtain samples s2 where ih:
    "run_calls split uniform normal s1 cs = Inr (samples, s2)"
    "rnd_key s2 = Some ((next_key split ^^ length cs) (next_key split key))"
    "precision s2 = precision s1"
    "length samples = length cs"
    "\<forall>n < length cs. samples ! n =
        sample_of uniform normal (cs ! n) (subkey_of split (next_key split key) n) (precision s1)"
    by blast
  let ?first = "sample_of uniform normal c (subkey_of split key 0) (precision self)"
  have first: "(case c of Uniform shp \<Rightarrow> random_uniform split uniform self shp
                    | Normal shp \<Rightarrow> random_normal split normal self shp) = Inr (?first, s1)"
    using s1(1)
    by (cases c) (simp_all add: random_uniform_def random_normal_def sample_of_def subkey_of_def)
  have run: "run_calls split uniform normal self (c # cs) = Inr (?first # samples, s2)"
    using first ih(1) by simp
  have key: "rnd_key s2 = Some ((next_key split ^^ length (c # cs)) key)"
    using ih(2) by (simp add: funpow_swap1)
  have each: "(?first # samples) ! n =
      sample_of uniform normal ((c # cs) ! n) (subkey_of split key n) (precision self)"
    if "n < length (c # cs)" for n
    using that ih(5) s1(3) by (cases n) (simp_all add: subkey_of_Suc)
  show ?case
    using run key each ih(3,4) s1(3)
    by (intro exI[of _ "?first # samples"] exI[of _ s2] conjI) auto
qed

text \<open>
  C10. When the library makes a key \<open>key0\<close> for the seed 0, the constructor stores it.
  A sequence of calls on the new backend returns; call number \<open>n\<close> stores
  \<open>next_key\<close> of the key it found and draws its sample from the sub-key
  \<open>subkey_of split key0 n\<close> of that split, so the samples are a function of \<open>key0\<close>, the
  calls and the precision alone: a second backend constructed the same way returns the
  same samples for the same calls. Consecutive calls draw from different sub-keys as long
  as the library's \<open>split\<close> gives different sub-keys for different keys and never returns
  the key it was given as the new key.
\<close>

theorem random_sampling_deterministic:
  assumes "PRNGKey 0 = Inr key0"
  shows "\<exists>self0 samples self'.
           init PRNGKey p x64 = Inr self0 \<and> rnd_key self0 = Some key0 \<and>
           run_calls split uniform normal self0 cs = Inr (samples, self') \<and>
           rnd_key self' = Some ((next_key split ^^ length cs) key0) \<and>
           length samples = length cs \<and>
           (\<forall>n < length cs. samples ! n =
              sample_of uniform normal (cs ! n) (subkey_of split key0 n) p) \<and>
           (\<forall>x64' self1. init PRNGKey p x64' = Inr self1 \<longrightarrow>
              map_sum id fst (run_calls split uniform normal self1 cs) = Inr samples) \<and>
           (inj (\<lambda>k. snd (split k)) \<and> (\<forall>k. next_key split k \<noteq> k) \<longrightarrow>
              (\<forall>n. subkey_of split key0 (Suc n) \<noteq> subkey_of split key0 n))"
proof -
  let ?self0 = "\<lparr>rnd_key = Some key0, precision = p, x64_enabled = x64\<rparr>"
  have i: "init PRNGKey p x64 = Inr ?self0"
    using assms by (simp add: init_def)
  from run_calls_closed_form[of ?self0 key0 split uniform normal cs]
  obtain samples self' where r:
    "run_calls split uniform normal ?self0 cs = Inr (samples, self')"
    "rnd_key self' = Some ((next_key split ^^ length cs) key0)"
    "length samples = length cs"
    "\<forall>n < length cs. samples ! n =
        sample_of uniform normal (cs ! n) (subkey_of split key0 n) p"
    by auto
  have other: "map_sum id fst (run_calls split uniform normal self1 cs) = Inr samples"
    if "init PRNGKey p x64' = Inr self1" for x64' self1
  proof -
    have s1: "self1 = \<lparr>rnd_key = Some key0, precision = p, x64_enabled = x64'\<rparr>"
      using that assms by (simp add: init_def)
    from run_calls_closed_form[of self1 key0 split uniform normal cs] s1
    obtain samples1 self1' where r1:
      "run_calls split uniform normal self1 cs = Inr (samples1, self1')"
      "length samples1 = length cs"
      "\<forall>n < length cs. samples1 ! n =
          sample_of uniform normal (cs ! n) (subkey_of split key0 n) p"
      by auto
    have "samples1 = samples"
      using r(3,4) r1(2,3) by (intro nth_equalityI) auto
    then show ?thesis using r1(1) by simp
  qed
  have distinct: "subkey_of split key0 (Suc n) \<noteq> subkey_of split key0 n"
    if "inj (\<lambda>k. snd (split k))" "\<forall>k. next_key split k \<noteq> k" for n
  proof
    assume "subkey_of split key0 (Suc n) = subkey_of split key0 n"
    then have "next_key split ((next_key split ^^ n) key0) = (next_key split ^^ n) key0"
      using that(1) by (auto simp: subkey_of_def dest: injD)
    then show False using that(2) by blast
  qed
  show ?thesis
    using i r other distinct by (intro exI[of _ ?self0] exI[of _ samples] exI[of _ self']) auto
qed

theorem random_sampling_deterministic_witness:
  "map_sum id fst
     (run_calls (\<lambda>k. (2 * k + 1, 2 * k + 2)) (\<lambda>k shp t. (k, shp, bits t))
        (\<lambda>k shp t. (k + 100, shp, bits t))
        \<lparr>rnd_key = Some (0 :: nat), precision = 32, x64_enabled = False\<rparr>
        [Uniform [2], Normal [3], Uniform [2]])
     = Inr [(2, [2], 32), (104, [3], 32), (8, [2], 32)] \<and>
   subkey_of (\<lambda>k. (2 * k + 1, 2 * k + 2)) (0 :: nat) 1
     \<noteq> subkey_of (\<lambda>k. (2 * k + 1, 2 * k + 2)) 0 0"
proof -
  let ?split = "\<lambda>k :: nat. (2 * k + 1, 2 * k + 2)"
  let ?u = "\<lambda>(k :: nat) (shp :: nat list) t. (k, shp, bits t)"
  let ?n = "\<lambda>(k :: nat) (shp :: nat list) t. (k + 100, shp, bits t)"
  let ?cs = "[Uniform [2], Normal [3], Uniform [2]]"
  have inj: "inj (\<lambda>k. snd (?split k))" by (auto simp: inj_def)
  have nk: "\<forall>k. next_key ?split k \<noteq> k" by (simp add: next_key_def)
  have k0: "(Inr 0 :: error + nat) = Inr 0" by simp
  from random_sampling_deterministic[of "\<lambda>seed. Inr seed" 0 32 False ?split ?u ?n ?cs, OF k0]
  obtain self0 samples self' where r:
    "init (\<lambda>seed. Inr seed) 32 False = Inr self0"
    "rnd_key self0 = Some 0"
    "run_calls ?split ?u ?n self0 ?cs = Inr (samples, self')"
    "rnd_key self' = Some ((next_key ?split ^^ length ?cs) 0)"
    "length samples = length ?cs"
    "\<forall>n < length ?cs. samples ! n = sample_of ?u ?n (?cs ! n) (subkey_of ?split 0 n) 32"
    "\<forall>x64' self1. init (\<lambda>seed. Inr seed) 32 x64' = Inr self1 \<longrightarrow>
              map_sum id fst (run_calls ?split ?u ?n self1 ?cs) = Inr samples"
    "inj (\<lambda>k. snd (?split k)) \<and> (\<forall>k. next_key ?split k \<noteq> k) \<longrightarrow>
              (\<forall>n. subkey_of ?split 0 (Suc n) \<noteq> subkey_of ?split 0 n)"
    by (elim exE conjE)
  have s: "samples = [samples ! 0, samples ! Suc 0, samples ! Suc (Suc 0)]"
    using r(5) by (intro nth_equalityI) (auto simp: less_Suc_eq)
  have e: "samples ! 0 = (2, [2], 32)" "samples ! Suc 0 = (104, [3], 32)"
    "samples ! Suc (Suc 0) = (8, [2], 32)"
    using r(6)[rule_format, of 0] r(6)[rule_format, of "Suc 0"]
      r(6)[rule_format, of "Suc (Suc 0)"]
    by (simp_all add: sample_of_def subkey_of_def next_key_def)
  have v: "samples = [(2, [2], 32), (104, [3], 32), (8, [2], 32)]"
    by (subst s) (simp add: e)
  have "map_sum id fst (run_calls ?split ?u ?n
          \<lparr>rnd_key = Some 0, precision = 32, x64_enabled = False\<rparr> ?cs) = Inr samples"
    using r(7) by (simp add: init_def)
  moreover have "subkey_of ?split 0 (Suc 0) \<noteq> subkey_of ?split 0 0"
    using r(8) inj nk by blast
  ultimately show ?thesis using v by simp
qed

end
